theory Spec2Isabelle
  imports Main
begin

section \<open>Data model\<close>

text \<open>
  The runtime's GPU layer (\<^verbatim>\<open>runtime/src/chpl-gpu.c\<close>) and its CUDA backend
  (\<^verbatim>\<open>runtime/src/gpu/nvidia/gpu-nvidia.c\<close>) are embedded as functions over an
  explicit \<open>world\<close>. Addresses are abstract block identifiers, \<open>NULL\<close> is \<open>0\<close>.
  Sub-locale and node identifiers are C \<open>int32_t\<close> values; no arithmetic is done on
  them, so they are \<open>int\<close>. Sizes are \<open>size_t\<close> values, kept as \<open>nat\<close>, with the
  wrap-around modulo \<open>2 ^ 64\<close> written out where the source multiplies.
\<close>

type_synonym ptr = nat
type_synonym c_sublocid_t = int
type_synonym c_nodeid_t = int
type_synonym CUcontext = nat
type_synonym CUdevice = nat
type_synonym CUmodule = nat
type_synonym CUfunction = nat

abbreviation NULL :: nat where
  "NULL \<equiv> 0"

datatype CUresult =
    CUDA_SUCCESS
  | CUDA_ERROR_INVALID_VALUE
  | CUDA_ERROR_NOT_INITIALIZED
  | CUDA_ERROR_DEINITIALIZED
  | CUDA_ERROR_INVALID_CONTEXT
  | CUDA_ERROR_UNKNOWN

datatype CUmemorytype =
    CU_MEMORYTYPE_HOST
  | CU_MEMORYTYPE_DEVICE
  | CU_MEMORYTYPE_ARRAY
  | CU_MEMORYTYPE_UNIFIED

text \<open>Every way a call can end without returning: \<^verbatim>\<open>chpl_error\<close>,
  \<^verbatim>\<open>chpl_internal_error\<close>, a failed \<^verbatim>\<open>assert\<close>, a failed \<^verbatim>\<open>CUDA_CALL\<close>, and a
  read outside a C array (undefined behaviour in C, an error value here).\<close>

datatype error =
    Chpl_error string
  | Chpl_internal_error string
  | Assert_failure string
  | CUDA_failure CUresult
  | Out_of_bounds string

datatype diag = kernel_launch | device_to_device | device_to_host | host_to_device

text \<open>The calls the layer makes to its collaborators (host allocator, CUDA driver,
  network transport, memory hooks), in the order they are made.\<close>

datatype event =
    E_chpl_malloc nat ptr
  | E_chpl_free ptr
  | E_memmove ptr ptr nat
  | E_chpl_mem_calloc nat nat ptr
  | E_chpl_mem_free ptr
  | E_chpl_mem_realloc ptr nat ptr
  | E_memhook_malloc_pre nat nat
  | E_memhook_malloc_post ptr nat nat
  | E_memhook_free_pre ptr
  | E_cuInit
  | E_cuDevicePrimaryCtxSetFlags CUdevice
  | E_cuDevicePrimaryCtxRetain CUdevice CUcontext
  | E_cuCtxSetCurrent CUcontext
  | E_load_module CUcontext CUmodule
  | E_cuCtxPushCurrent CUcontext
  | E_cuCtxPopCurrent CUcontext
  | E_cuMemAlloc nat ptr
  | E_cuMemAllocHost nat ptr
  | E_cuMemAllocManaged nat ptr
  | E_cuMemFree ptr
  | E_cuMemFreeHost ptr
  | E_cuMemcpyDtoD ptr ptr nat
  | E_cuMemcpyDtoH ptr ptr nat
  | E_cuMemcpyHtoD ptr ptr nat
  | E_cuLaunchKernel CUfunction "int \<times> int \<times> int" "int \<times> int \<times> int" "ptr list"
  | E_cudaDeviceSynchronize
  | E_comm_on_get c_sublocid_t ptr c_nodeid_t c_sublocid_t ptr nat
  | E_comm_on_put c_sublocid_t ptr c_nodeid_t c_sublocid_t ptr nat
  | E_gen_comm_put ptr c_nodeid_t ptr nat
  | E_gen_comm_get ptr c_nodeid_t ptr nat

text \<open>The preprocessor symbols the two files branch on.\<close>

record build =
  CHPL_GPU_MEM_STRATEGY_ARRAY_ON_DEVICE :: bool
  GPU_RUNTIME_CPU :: bool
  NDEBUG :: bool

text \<open>What the collaborators answer. None of these functions is defined in the two
  source files; each is taken as a parameter. \<open>cuPointerGetAttribute\<close> is the driver
  query of \<^verbatim>\<open>CU_POINTER_ATTRIBUTE_MEMORY_TYPE\<close>; \<open>sscanf_SCNi32\<close> is
  \<^verbatim>\<open>sscanf(env, "%" SCNi32, &n)\<close>, \<open>Some n\<close> when it returns 1.\<close>

record extern =
  cuPointerGetAttribute :: "ptr \<Rightarrow> CUresult \<times> CUmemorytype"
  chpl_gpu_common_is_device_ptr :: "ptr \<Rightarrow> bool"
  chpl_gpu_common_get_alloc_size :: "ptr \<Rightarrow> nat"
  chpl_task_getRequestedSubloc :: c_sublocid_t
  c_sublocid_any :: c_sublocid_t
  chpl_gpu_load_function :: "CUmodule \<Rightarrow> string \<Rightarrow> CUfunction"
  chpl_gpu_load_module :: "CUcontext \<Rightarrow> CUmodule"
  chpl_env_rt_get :: "string \<Rightarrow> string option"
  sscanf_SCNi32 :: "string \<Rightarrow> int option"
  cuDeviceGetCount :: int
  cuDeviceGet :: "nat \<Rightarrow> CUdevice"
  cuDevicePrimaryCtxRetain :: "CUdevice \<Rightarrow> CUcontext"
  cuDeviceGetAttribute_CLOCK_RATE :: "CUdevice \<Rightarrow> int"
  cuModuleGetGlobal :: "CUmodule \<Rightarrow> string \<Rightarrow> ptr \<times> nat"
  addr_chpl_nodeID :: ptr

text \<open>The mutable state: the file-scope variables of the two files
  (\<open>chpl_gpu_num_devices\<close>, \<open>chpl_gpu_primary_ctx\<close>, \<open>chpl_gpu_devices\<close>,
  \<open>chpl_gpu_cuda_modules\<close>, \<open>deviceClockRates\<close>), the driver's context stack of the
  calling thread, the diagnostic counters, the last address handed out by an
  allocator, and the trace of calls made so far.\<close>

record world =
  trace :: "event list"
  ctx_stack :: "CUcontext list"
  cu_initialized :: bool
  chpl_gpu_num_devices :: int
  chpl_gpu_primary_ctx :: "CUcontext list"
  chpl_gpu_devices :: "CUdevice list"
  chpl_gpu_cuda_modules :: "CUmodule list"
  deviceClockRates :: "int list"
  diags :: "diag \<Rightarrow> nat"
  next_addr :: nat

section \<open>Calls that may abort\<close>

text \<open>A C function of the layer is a function from the world to its result and the
  world it leaves. An aborted call keeps the world it had reached, so that what
  happened before the abort can still be inspected.\<close>

type_synonym 'a M = "world \<Rightarrow> (error + 'a) \<times> world"

definition ret :: "'a \<Rightarrow> 'a M" where
  "ret x w = (Inr x, w)"

definition abort :: "error \<Rightarrow> 'a M" where
  "abort e w = (Inl e, w)"

definition bnd :: "'a M \<Rightarrow> ('a \<Rightarrow> 'b M) \<Rightarrow> 'b M" where
  "bnd m f w = (case m w of (Inl e, w') \<Rightarrow> (Inl e, w') | (Inr x, w') \<Rightarrow> f x w')"

definition emit :: "event \<Rightarrow> unit M" where
  "emit ev w = (Inr (), w\<lparr>trace := trace w @ [ev]\<rparr>)"

text \<open>\<^verbatim>\<open>assert(cond)\<close>: compiled out under \<open>NDEBUG\<close>, an abort otherwise.\<close>

definition c_assert :: "build \<Rightarrow> string \<Rightarrow> bool \<Rightarrow> unit M" where
  "c_assert b msg cond = (if NDEBUG b \<or> cond then ret () else abort (Assert_failure msg))"

text \<open>\<^verbatim>\<open>CUDA_CALL(call)\<close>: fatal unless the driver reports success.\<close>

definition CUDA_CALL :: "CUresult \<Rightarrow> unit M" where
  "CUDA_CALL r = (if r = CUDA_SUCCESS then ret () else abort (CUDA_failure r))"

definition chpl_error :: "string \<Rightarrow> 'a M" where
  "chpl_error msg = abort (Chpl_error msg)"

definition chpl_internal_error :: "string \<Rightarrow> 'a M" where
  "chpl_internal_error msg = abort (Chpl_internal_error msg)"

text \<open>\<^verbatim>\<open>for (...)\<close> over the values \<open>is\<close>, threading the loop's local variables \<open>s\<close>.\<close>

fun for_loop :: "'i list \<Rightarrow> ('i \<Rightarrow> 's \<Rightarrow> 's M) \<Rightarrow> 's \<Rightarrow> 's M" where
  "for_loop [] body s = ret s"
| "for_loop (i # is) body s = bnd (body i s) (for_loop is body)"

text \<open>Reading \<open>a[i]\<close> of a C array with \<open>length a\<close> initialised entries.\<close>

definition c_index :: "'a list \<Rightarrow> int \<Rightarrow> 'a option" where
  "c_index a i = (if 0 \<le> i \<and> nat i < length a then Some (a ! nat i) else None)"

text \<open>Conversion of an \<open>int\<close> expression to \<open>size_t\<close> (64 bits).\<close>

definition size_t :: "int \<Rightarrow> nat" where
  "size_t i = nat (i mod 2 ^ 64)"

section \<open>Collaborators\<close>

text \<open>Allocators hand out a fresh non-null address; running out of memory is not
  modelled.\<close>

definition fresh :: "ptr M" where
  "fresh w = (Inr (Suc (next_addr w)), w\<lparr>next_addr := Suc (next_addr w)\<rparr>)"

definition chpl_malloc :: "nat \<Rightarrow> ptr M" where
  "chpl_malloc n = bnd fresh (\<lambda>p. bnd (emit (E_chpl_malloc n p)) (\<lambda>_. ret p))"

definition chpl_free :: "ptr \<Rightarrow> unit M" where
  "chpl_free p = emit (E_chpl_free p)"

definition chpl_mem_calloc :: "nat \<Rightarrow> nat \<Rightarrow> ptr M" where
  "chpl_mem_calloc number n = bnd fresh (\<lambda>p. bnd (emit (E_chpl_mem_calloc number n p)) (\<lambda>_. ret p))"

definition chpl_mem_free :: "ptr \<Rightarrow> unit M" where
  "chpl_mem_free p = emit (E_chpl_mem_free p)"

definition chpl_mem_realloc :: "ptr \<Rightarrow> nat \<Rightarrow> ptr M" where
  "chpl_mem_realloc p n = bnd fresh (\<lambda>q. bnd (emit (E_chpl_mem_realloc p n q)) (\<lambda>_. ret q))"

definition cuMemAlloc :: "nat \<Rightarrow> ptr M" where
  "cuMemAlloc n = bnd fresh (\<lambda>p. bnd (emit (E_cuMemAlloc n p)) (\<lambda>_. ret p))"

definition cuMemAllocHost :: "nat \<Rightarrow> ptr M" where
  "cuMemAllocHost n = bnd fresh (\<lambda>p. bnd (emit (E_cuMemAllocHost n p)) (\<lambda>_. ret p))"

definition cuMemAllocManaged :: "nat \<Rightarrow> ptr M" where
  "cuMemAllocManaged n = bnd fresh (\<lambda>p. bnd (emit (E_cuMemAllocManaged n p)) (\<lambda>_. ret p))"

text \<open>The driver's context stack of the calling thread. Before \<^verbatim>\<open>cuInit\<close> every
  context call reports \<^verbatim>\<open>CUDA_ERROR_NOT_INITIALIZED\<close>.\<close>

definition cuCtxGetCurrent :: "world \<Rightarrow> CUresult \<times> CUcontext" where
  "cuCtxGetCurrent w =
     (if cu_initialized w
      then (CUDA_SUCCESS, (case ctx_stack w of [] \<Rightarrow> NULL | c # _ \<Rightarrow> c))
      else (CUDA_ERROR_NOT_INITIALIZED, NULL))"

definition cuCtxPushCurrent :: "CUcontext \<Rightarrow> CUresult M" where
  "cuCtxPushCurrent c w =
     (if cu_initialized w
      then (Inr CUDA_SUCCESS,
            w\<lparr>trace := trace w @ [E_cuCtxPushCurrent c], ctx_stack := c # ctx_stack w\<rparr>)
      else (Inr CUDA_ERROR_NOT_INITIALIZED, w))"

definition cuCtxPopCurrent :: "(CUresult \<times> CUcontext) M" where
  "cuCtxPopCurrent w =
     (if cu_initialized w
      then (case ctx_stack w of
              [] \<Rightarrow> (Inr (CUDA_ERROR_INVALID_CONTEXT, NULL), w)
            | c # cs \<Rightarrow> (Inr (CUDA_SUCCESS, c),
                         w\<lparr>trace := trace w @ [E_cuCtxPopCurrent c], ctx_stack := cs\<rparr>))
      else (Inr (CUDA_ERROR_NOT_INITIALIZED, NULL), w))"

definition cuCtxSetCurrent :: "CUcontext \<Rightarrow> unit M" where
  "cuCtxSetCurrent c w =
     (Inr (), w\<lparr>trace := trace w @ [E_cuCtxSetCurrent c], ctx_stack := c # tl (ctx_stack w)\<rparr>)"

definition cuInit :: "unit M" where
  "cuInit w = (Inr (), w\<lparr>trace := trace w @ [E_cuInit], cu_initialized := True\<rparr>)"

text \<open>Modelled from the spec: the macro \<^verbatim>\<open>chpl_gpu_diags_incr\<close> of
  \<^verbatim>\<open>chpl-gpu-diags.h\<close>, which is not among the sources. The spec has the counter of
  an event kind incremented once per logical event.\<close>

definition chpl_gpu_diags_incr :: "diag \<Rightarrow> unit M" where
  "chpl_gpu_diags_incr c w = (Inr (), w\<lparr>diags := (diags w)(c := Suc (diags w c))\<rparr>)"

section \<open>gpu-nvidia.c\<close>

definition chpl_gpu_has_context :: "world \<Rightarrow> bool" where
  "chpl_gpu_has_context w =
     (case cuCtxGetCurrent w of (r, cuda_context) \<Rightarrow>
        if r = CUDA_ERROR_NOT_INITIALIZED \<or> r = CUDA_ERROR_DEINITIALIZED then False
        else cuda_context \<noteq> NULL)"

definition switch_context :: "int \<Rightarrow> unit M" where
  "switch_context dev_id w =
     (case c_index (chpl_gpu_primary_ctx w) dev_id of
        None \<Rightarrow> abort (Out_of_bounds ''chpl_gpu_primary_ctx[dev_id]'') w
      | Some next_context \<Rightarrow>
          if \<not> chpl_gpu_has_context w then
            bnd (cuCtxPushCurrent next_context) CUDA_CALL w
          else
            (case cuCtxGetCurrent w of (_, cur_context) \<Rightarrow>
               bnd (if cur_context = NULL
                    then chpl_internal_error ''Unexpected GPU context error''
                    else ret ())
                 (\<lambda>_. if cur_context \<noteq> next_context then
                         bnd cuCtxPopCurrent (\<lambda>(r, popped).
                         bnd (CUDA_CALL r) (\<lambda>_.
                         bnd (cuCtxPushCurrent next_context) CUDA_CALL))
                       else ret ()) w))"

definition chpl_gpu_impl_use_device :: "c_sublocid_t \<Rightarrow> unit M" where
  "chpl_gpu_impl_use_device dev_id = switch_context dev_id"

definition chpl_gpu_impl_is_device_ptr :: "extern \<Rightarrow> ptr \<Rightarrow> bool" where
  "chpl_gpu_impl_is_device_ptr x p = chpl_gpu_common_is_device_ptr x p"

definition chpl_gpu_is_device_ptr :: "extern \<Rightarrow> ptr \<Rightarrow> bool" where
  "chpl_gpu_is_device_ptr x p = chpl_gpu_impl_is_device_ptr x p"

definition chpl_gpu_impl_is_host_ptr :: "extern \<Rightarrow> ptr \<Rightarrow> bool M" where
  "chpl_gpu_impl_is_host_ptr x p =
     (case cuPointerGetAttribute x p of (ret_val, res) \<Rightarrow>
        if ret_val \<noteq> CUDA_SUCCESS then
          (if ret_val = CUDA_ERROR_INVALID_VALUE \<or> ret_val = CUDA_ERROR_NOT_INITIALIZED
               \<or> ret_val = CUDA_ERROR_DEINITIALIZED
           then ret True
           else bnd (CUDA_CALL ret_val) (\<lambda>_. ret True))
        else ret (res = CU_MEMORYTYPE_HOST))"

definition chpl_gpu_impl_copy_device_to_host :: "build \<Rightarrow> extern \<Rightarrow> ptr \<Rightarrow> ptr \<Rightarrow> nat \<Rightarrow> unit M" where
  "chpl_gpu_impl_copy_device_to_host b x dst src n =
     bnd (c_assert b ''chpl_gpu_is_device_ptr(src)'' (chpl_gpu_is_device_ptr x src)) (\<lambda>_.
     emit (E_cuMemcpyDtoH dst src n))"

definition chpl_gpu_impl_copy_host_to_device :: "build \<Rightarrow> extern \<Rightarrow> ptr \<Rightarrow> ptr \<Rightarrow> nat \<Rightarrow> unit M" where
  "chpl_gpu_impl_copy_host_to_device b x dst src n =
     bnd (c_assert b ''chpl_gpu_is_device_ptr(dst)'' (chpl_gpu_is_device_ptr x dst)) (\<lambda>_.
     emit (E_cuMemcpyHtoD dst src n))"

definition chpl_gpu_impl_copy_device_to_device :: "build \<Rightarrow> extern \<Rightarrow> ptr \<Rightarrow> ptr \<Rightarrow> nat \<Rightarrow> unit M" where
  "chpl_gpu_impl_copy_device_to_device b x dst src n =
     bnd (c_assert b ''chpl_gpu_is_device_ptr(dst) && chpl_gpu_is_device_ptr(src)''
            (chpl_gpu_is_device_ptr x dst \<and> chpl_gpu_is_device_ptr x src)) (\<lambda>_.
     emit (E_cuMemcpyDtoD dst src n))"

definition chpl_gpu_impl_mem_array_alloc :: "build \<Rightarrow> nat \<Rightarrow> ptr M" where
  "chpl_gpu_impl_mem_array_alloc b n =
     bnd (c_assert b ''size>0'' (n > 0)) (\<lambda>_.
     if CHPL_GPU_MEM_STRATEGY_ARRAY_ON_DEVICE b then cuMemAlloc n else cuMemAllocManaged n)"

definition chpl_gpu_impl_mem_alloc :: "build \<Rightarrow> nat \<Rightarrow> ptr M" where
  "chpl_gpu_impl_mem_alloc b n =
     bnd (if CHPL_GPU_MEM_STRATEGY_ARRAY_ON_DEVICE b then cuMemAllocHost n
          else cuMemAllocManaged n) (\<lambda>p.
     bnd (c_assert b ''ptr!=0'' (p \<noteq> NULL)) (\<lambda>_.
     ret p))"

definition chpl_gpu_impl_mem_free :: "build \<Rightarrow> extern \<Rightarrow> ptr \<Rightarrow> unit M" where
  "chpl_gpu_impl_mem_free b x memAlloc =
     (if memAlloc \<noteq> NULL then
        bnd (c_assert b ''chpl_gpu_is_device_ptr(memAlloc)'' (chpl_gpu_is_device_ptr x memAlloc)) (\<lambda>_.
        if CHPL_GPU_MEM_STRATEGY_ARRAY_ON_DEVICE b then
          bnd (chpl_gpu_impl_is_host_ptr x memAlloc) (\<lambda>on_host.
          if on_host then emit (E_cuMemFreeHost memAlloc) else emit (E_cuMemFree memAlloc))
        else emit (E_cuMemFree memAlloc))
      else ret ())"

definition chpl_gpu_impl_get_alloc_size :: "extern \<Rightarrow> ptr \<Rightarrow> nat" where
  "chpl_gpu_impl_get_alloc_size x p = chpl_gpu_common_get_alloc_size x p"

section \<open>chpl-gpu.c: device memory\<close>

text \<open>\<^verbatim>\<open>CHPL_GPU_DEBUG\<close> output, the verbose diagnostics, and the description, line
  and file arguments that only feed them are left out. The memory hooks are calls to
  a collaborator and appear as events.\<close>

definition chpl_gpu_get_alloc_size :: "extern \<Rightarrow> ptr \<Rightarrow> nat" where
  "chpl_gpu_get_alloc_size x p = chpl_gpu_impl_get_alloc_size x p"

definition chpl_gpu_mem_alloc :: "build \<Rightarrow> extern \<Rightarrow> nat \<Rightarrow> ptr M" where
  "chpl_gpu_mem_alloc b x n =
     (if n > 0 then
        bnd (chpl_gpu_impl_use_device (chpl_task_getRequestedSubloc x)) (\<lambda>_.
        bnd (emit (E_memhook_malloc_pre 1 n)) (\<lambda>_.
        bnd (chpl_gpu_impl_mem_alloc b n) (\<lambda>p.
        bnd (emit (E_memhook_malloc_post p 1 n)) (\<lambda>_.
        ret p))))
      else ret NULL)"

definition chpl_gpu_mem_array_alloc :: "build \<Rightarrow> extern \<Rightarrow> nat \<Rightarrow> ptr M" where
  "chpl_gpu_mem_array_alloc b x n =
     bnd (chpl_gpu_impl_use_device (chpl_task_getRequestedSubloc x)) (\<lambda>_.
     if n > 0 then
       bnd (emit (E_memhook_malloc_pre 1 n)) (\<lambda>_.
       bnd (chpl_gpu_impl_mem_array_alloc b n) (\<lambda>p.
       bnd (emit (E_memhook_malloc_post p 1 n)) (\<lambda>_.
       ret p)))
     else ret NULL)"

definition chpl_gpu_mem_free :: "build \<Rightarrow> extern \<Rightarrow> ptr \<Rightarrow> unit M" where
  "chpl_gpu_mem_free b x memAlloc =
     bnd (chpl_gpu_impl_use_device (chpl_task_getRequestedSubloc x)) (\<lambda>_.
     bnd (emit (E_memhook_free_pre memAlloc)) (\<lambda>_.
     chpl_gpu_impl_mem_free b x memAlloc))"

definition chpl_gpu_mem_calloc :: "build \<Rightarrow> extern \<Rightarrow> nat \<Rightarrow> nat \<Rightarrow> ptr M" where
  "chpl_gpu_mem_calloc b x number n =
     (if n > 0 then
        (let total_size = (number * n) mod 2 ^ 64 in
         bnd (chpl_mem_calloc number n) (\<lambda>host_mem.
         bnd (chpl_gpu_impl_use_device (chpl_task_getRequestedSubloc x)) (\<lambda>_.
         bnd (emit (E_memhook_malloc_pre 1 total_size)) (\<lambda>_.
         bnd (chpl_gpu_impl_mem_alloc b total_size) (\<lambda>p.
         bnd (emit (E_memhook_malloc_post p 1 total_size)) (\<lambda>_.
         bnd (chpl_gpu_impl_copy_host_to_device b x p host_mem total_size) (\<lambda>_.
         bnd (chpl_mem_free host_mem) (\<lambda>_.
         ret p))))))))
      else ret NULL)"

definition chpl_gpu_mem_realloc :: "build \<Rightarrow> extern \<Rightarrow> ptr \<Rightarrow> nat \<Rightarrow> ptr M" where
  "chpl_gpu_mem_realloc b x memAlloc n =
     bnd (c_assert b ''chpl_gpu_is_device_ptr(memAlloc)'' (chpl_gpu_is_device_ptr x memAlloc)) (\<lambda>_.
     bnd (chpl_gpu_impl_use_device (chpl_task_getRequestedSubloc x)) (\<lambda>_.
     if GPU_RUNTIME_CPU b then chpl_mem_realloc memAlloc n
     else
       (let cur_size = chpl_gpu_get_alloc_size x memAlloc in
        bnd (c_assert b ''cur_size >= 0'' (cur_size \<ge> 0)) (\<lambda>_.
        if n = cur_size then ret memAlloc
        else
          bnd (chpl_gpu_mem_alloc b x n) (\<lambda>new_alloc.
          let copy_size = (if n < cur_size then n else cur_size) in
          bnd (chpl_gpu_impl_copy_device_to_device b x new_alloc memAlloc copy_size) (\<lambda>_.
          bnd (chpl_gpu_mem_free b x memAlloc) (\<lambda>_.
          ret new_alloc)))))))"

section \<open>chpl-gpu.c: local copies\<close>

definition chpl_gpu_copy_device_to_device ::
    "build \<Rightarrow> extern \<Rightarrow> c_sublocid_t \<Rightarrow> ptr \<Rightarrow> c_sublocid_t \<Rightarrow> ptr \<Rightarrow> nat \<Rightarrow> unit M" where
  "chpl_gpu_copy_device_to_device b x dst_dev dst src_dev src n =
     bnd (c_assert b ''chpl_gpu_is_device_ptr(src)'' (chpl_gpu_is_device_ptr x src)) (\<lambda>_.
     bnd (chpl_gpu_impl_use_device dst_dev) (\<lambda>_.
     bnd (chpl_gpu_diags_incr device_to_device) (\<lambda>_.
     chpl_gpu_impl_copy_device_to_device b x dst src n)))"

definition chpl_gpu_copy_device_to_host ::
    "build \<Rightarrow> extern \<Rightarrow> ptr \<Rightarrow> c_sublocid_t \<Rightarrow> ptr \<Rightarrow> nat \<Rightarrow> unit M" where
  "chpl_gpu_copy_device_to_host b x dst src_dev src n =
     bnd (c_assert b ''chpl_gpu_is_device_ptr(src)'' (chpl_gpu_is_device_ptr x src)) (\<lambda>_.
     bnd (chpl_gpu_impl_use_device src_dev) (\<lambda>_.
     bnd (chpl_gpu_diags_incr device_to_host) (\<lambda>_.
     chpl_gpu_impl_copy_device_to_host b x dst src n)))"

definition chpl_gpu_copy_host_to_device ::
    "build \<Rightarrow> extern \<Rightarrow> c_sublocid_t \<Rightarrow> ptr \<Rightarrow> ptr \<Rightarrow> nat \<Rightarrow> unit M" where
  "chpl_gpu_copy_host_to_device b x dst_dev dst src n =
     bnd (c_assert b ''chpl_gpu_is_device_ptr(dst)'' (chpl_gpu_is_device_ptr x dst)) (\<lambda>_.
     bnd (chpl_gpu_impl_use_device dst_dev) (\<lambda>_.
     bnd (chpl_gpu_diags_incr host_to_device) (\<lambda>_.
     chpl_gpu_impl_copy_host_to_device b x dst src n)))"

text \<open>\<^verbatim>\<open>chpl_memmove\<close> and \<^verbatim>\<open>memmove\<close> are the same plain local move.\<close>

definition chpl_gpu_memcpy ::
    "build \<Rightarrow> extern \<Rightarrow> c_sublocid_t \<Rightarrow> ptr \<Rightarrow> c_sublocid_t \<Rightarrow> ptr \<Rightarrow> nat \<Rightarrow> unit M" where
  "chpl_gpu_memcpy b x dst_subloc dst src_subloc src n =
     (if CHPL_GPU_MEM_STRATEGY_ARRAY_ON_DEVICE b then
        (if dst_subloc < 0 \<and> src_subloc < 0 then emit (E_memmove dst src n)
         else
           bnd (chpl_gpu_impl_is_host_ptr x dst) (\<lambda>dst_on_host.
           bnd (chpl_gpu_impl_is_host_ptr x src) (\<lambda>src_on_host.
           if \<not> dst_on_host \<and> \<not> src_on_host then
             chpl_gpu_copy_device_to_device b x dst_subloc dst src_subloc src n
           else if \<not> dst_on_host then
             chpl_gpu_copy_host_to_device b x dst_subloc dst src n
           else if \<not> src_on_host then
             chpl_gpu_copy_device_to_host b x dst src_subloc src n
           else
             bnd (c_assert b ''dst_on_host && src_on_host'' (dst_on_host \<and> src_on_host)) (\<lambda>_.
             emit (E_memmove dst src n)))))
      else emit (E_memmove dst src n))"

section \<open>chpl-gpu.c: distributed put and get\<close>

text \<open>\<^verbatim>\<open>chpl_gpu_comm_on_get\<close> and \<^verbatim>\<open>chpl_gpu_comm_on_put\<close> are \<^verbatim>\<open>extern\<close> (the remote
  request run on the other node); \<^verbatim>\<open>chpl_gen_comm_put\<close> and \<^verbatim>\<open>chpl_gen_comm_get\<close> are
  the direct network transfers. All four are events.\<close>

definition chpl_gpu_comm_put ::
    "build \<Rightarrow> extern \<Rightarrow> c_nodeid_t \<Rightarrow> c_sublocid_t \<Rightarrow> ptr \<Rightarrow> c_sublocid_t \<Rightarrow> ptr \<Rightarrow> nat \<Rightarrow> unit M" where
  "chpl_gpu_comm_put b x dst_node dst_subloc dst src_subloc src n =
     bnd (if src_subloc \<ge> 0 then
            bnd (chpl_malloc n) (\<lambda>src_data.
            bnd (chpl_gpu_memcpy b x (c_sublocid_any x) src_data src_subloc src n) (\<lambda>_.
            ret (src_data, c_sublocid_any x)))
          else ret (src, src_subloc)) (\<lambda>(src_data, src_data_subloc).
     bnd (if dst_subloc \<ge> 0 then
            emit (E_comm_on_get src_data_subloc src_data dst_node dst_subloc dst n)
          else
            emit (E_gen_comm_put src_data dst_node dst n)) (\<lambda>_.
     if src_subloc \<ge> 0 then chpl_free src_data else ret ()))"

definition chpl_gpu_comm_get ::
    "build \<Rightarrow> extern \<Rightarrow> c_sublocid_t \<Rightarrow> ptr \<Rightarrow> c_nodeid_t \<Rightarrow> c_sublocid_t \<Rightarrow> ptr \<Rightarrow> nat \<Rightarrow> unit M" where
  "chpl_gpu_comm_get b x dst_subloc dst src_node src_subloc src n =
     bnd (if dst_subloc \<ge> 0 then
            bnd (chpl_malloc n) (\<lambda>dst_buff. ret (dst_buff, c_sublocid_any x))
          else ret (dst, dst_subloc)) (\<lambda>(dst_buff, dst_buff_subloc).
     bnd (if src_subloc \<ge> 0 then
            emit (E_comm_on_put dst_buff_subloc dst_buff src_node src_subloc src n)
          else
            emit (E_gen_comm_get dst_buff src_node src n)) (\<lambda>_.
     if dst_subloc \<ge> 0 then
       bnd (chpl_gpu_memcpy b x dst_subloc dst dst_buff_subloc dst_buff n) (\<lambda>_.
       chpl_free dst_buff)
     else ret ()))"

section \<open>Kernel launch\<close>

text \<open>The variadic arguments are the list of pairs \<open>(cur_arg, cur_arg_size)\<close> that
  \<^verbatim>\<open>va_arg\<close> reads in order; \<open>nargs\<close> is its length. An entry of \<open>kernel_params\<close> is
  kept with what the function stored at \<open>*kernel_params[i]\<close>, if it stored anything.\<close>

type_synonym kernel_param = "ptr \<times> ptr option"

definition read_array :: "(world \<Rightarrow> 'a list) \<Rightarrow> string \<Rightarrow> int \<Rightarrow> 'a M" where
  "read_array a name i w =
     (case c_index (a w) i of None \<Rightarrow> abort (Out_of_bounds name) w | Some v \<Rightarrow> ret v w)"

definition prepare_kernel_param ::
    "build \<Rightarrow> extern \<Rightarrow> ptr \<times> nat \<Rightarrow> kernel_param list \<times> bool list
       \<Rightarrow> (kernel_param list \<times> bool list) M" where
  "prepare_kernel_param b x arg arrays =
     (case arg of (cur_arg, cur_arg_size) \<Rightarrow>
      case arrays of (kernel_params, was_memory_dynamically_allocated) \<Rightarrow>
        if cur_arg_size > 0 then
          bnd (chpl_malloc (1 * 8)) (\<lambda>cell.
          bnd (chpl_gpu_mem_alloc b x cur_arg_size) (\<lambda>dev.
          bnd (chpl_gpu_impl_copy_host_to_device b x dev cur_arg cur_arg_size) (\<lambda>_.
          ret (kernel_params @ [(cell, Some dev)], was_memory_dynamically_allocated @ [True]))))
        else
          ret (kernel_params @ [(cur_arg, None)], was_memory_dynamically_allocated @ [False]))"

definition free_kernel_param ::
    "build \<Rightarrow> extern \<Rightarrow> kernel_param list \<Rightarrow> bool list \<Rightarrow> nat \<Rightarrow> unit \<Rightarrow> unit M" where
  "free_kernel_param b x kernel_params was_memory_dynamically_allocated i u =
     (if was_memory_dynamically_allocated ! i then
        (case snd (kernel_params ! i) of
           Some dev \<Rightarrow> chpl_gpu_mem_free b x dev
         | None \<Rightarrow> abort (Out_of_bounds ''*kernel_params[i]''))
      else ret ())"

definition chpl_gpu_launch_kernel_help ::
    "build \<Rightarrow> extern \<Rightarrow> string \<Rightarrow> int \<times> int \<times> int \<Rightarrow> int \<times> int \<times> int \<Rightarrow> (ptr \<times> nat) list \<Rightarrow> unit M" where
  "chpl_gpu_launch_kernel_help b x name grd_dim blk_dim args =
     (let nargs = length args; dev_id = chpl_task_getRequestedSubloc x in
      bnd (read_array chpl_gpu_cuda_modules ''chpl_gpu_cuda_modules[dev_id]'' dev_id) (\<lambda>cuda_module.
      let function = chpl_gpu_load_function x cuda_module name in
      bnd (chpl_malloc (nargs * 8)) (\<lambda>kernel_params_block.
      bnd (c_assert b ''function'' (function \<noteq> NULL)) (\<lambda>_.
      bnd (c_assert b ''kernel_params'' (kernel_params_block \<noteq> NULL)) (\<lambda>_.
      bnd (chpl_malloc (nargs * 1)) (\<lambda>was_block.
      bnd (for_loop args (prepare_kernel_param b x) ([], [])) (\<lambda>(kernel_params, was_alloc).
      bnd (emit (E_cuLaunchKernel function grd_dim blk_dim (map fst kernel_params))) (\<lambda>_.
      bnd (emit E_cudaDeviceSynchronize) (\<lambda>_.
      bnd (for_loop [0..<nargs] (free_kernel_param b x kernel_params was_alloc) ()) (\<lambda>_.
      chpl_free kernel_params_block))))))))))"

definition chpl_gpu_impl_launch_kernel ::
    "build \<Rightarrow> extern \<Rightarrow> string \<Rightarrow> int \<times> int \<times> int \<Rightarrow> int \<times> int \<times> int \<Rightarrow> (ptr \<times> nat) list \<Rightarrow> unit M" where
  "chpl_gpu_impl_launch_kernel b x name grd_dim blk_dim args =
     chpl_gpu_launch_kernel_help b x name grd_dim blk_dim args"

definition chpl_gpu_launch_kernel ::
    "build \<Rightarrow> extern \<Rightarrow> string \<Rightarrow> int \<times> int \<times> int \<Rightarrow> int \<times> int \<times> int \<Rightarrow> (ptr \<times> nat) list \<Rightarrow> unit M" where
  "chpl_gpu_launch_kernel b x name grd_dim blk_dim args =
     bnd (chpl_gpu_impl_use_device (chpl_task_getRequestedSubloc x)) (\<lambda>_.
     bnd (chpl_gpu_diags_incr kernel_launch) (\<lambda>_.
     chpl_gpu_impl_launch_kernel b x name grd_dim blk_dim args))"

section \<open>Initialisation\<close>

text \<open>\<open>sizeof(c_nodeid_t)\<close>: the node identifier is an \<open>int32_t\<close>.\<close>

definition sizeof_c_nodeid_t :: nat where
  "sizeof_c_nodeid_t = 4"

definition chpl_gpu_impl_set_globals :: "build \<Rightarrow> extern \<Rightarrow> nat \<Rightarrow> CUmodule \<Rightarrow> unit M" where
  "chpl_gpu_impl_set_globals b x dev_id module =
     (case cuModuleGetGlobal x module ''chpl_nodeID'' of (p, glob_size) \<Rightarrow>
        bnd (c_assert b ''glob_size == sizeof(c_nodeid_t)'' (glob_size = sizeof_c_nodeid_t)) (\<lambda>_.
        chpl_gpu_impl_copy_host_to_device b x p (addr_chpl_nodeID x) glob_size))"

text \<open>One iteration of the loop of \<^verbatim>\<open>chpl_gpu_impl_init\<close>. The four tables are filled
  in index order, so entry \<open>i\<close> is appended.\<close>

definition init_device :: "build \<Rightarrow> extern \<Rightarrow> nat \<Rightarrow> unit \<Rightarrow> unit M" where
  "init_device b x i u =
     (let device = cuDeviceGet x i; context = cuDevicePrimaryCtxRetain x device in
      bnd (emit (E_cuDevicePrimaryCtxSetFlags device)) (\<lambda>_.
      bnd (emit (E_cuDevicePrimaryCtxRetain device context)) (\<lambda>_.
      bnd (cuCtxSetCurrent context) (\<lambda>_.
      let module = chpl_gpu_load_module x context in
      bnd (emit (E_load_module context module)) (\<lambda>_.
      bnd (\<lambda>w. ret () (w\<lparr>chpl_gpu_cuda_modules := chpl_gpu_cuda_modules w @ [module],
                         deviceClockRates :=
                           deviceClockRates w @ [cuDeviceGetAttribute_CLOCK_RATE x device],
                         chpl_gpu_devices := chpl_gpu_devices w @ [device],
                         chpl_gpu_primary_ctx := chpl_gpu_primary_ctx w @ [context]\<rparr>)) (\<lambda>_.
      chpl_gpu_impl_set_globals b x i module))))))"

text \<open>\<^verbatim>\<open>chpl_gpu_impl_init(&chpl_gpu_num_devices)\<close>: its only caller passes the address
  of the global, which is read and written in place.\<close>

definition chpl_gpu_impl_init :: "build \<Rightarrow> extern \<Rightarrow> unit M" where
  "chpl_gpu_impl_init b x =
     bnd cuInit (\<lambda>_.
     let num = cuDeviceGetCount x in
     bnd (c_assert b ''num != -1'' (num \<noteq> - 1)) (\<lambda>_.
     bnd (\<lambda>w. ret () (w\<lparr>chpl_gpu_num_devices :=
                           (if chpl_gpu_num_devices w = - 1 then num
                            else if chpl_gpu_num_devices w < num then chpl_gpu_num_devices w
                            else num)\<rparr>)) (\<lambda>_.
     bnd (\<lambda>w. ret (chpl_gpu_num_devices w) w) (\<lambda>loc_num_devices.
     bnd (chpl_malloc (size_t (8 * loc_num_devices))) (\<lambda>_.
     bnd (chpl_malloc (size_t (4 * loc_num_devices))) (\<lambda>_.
     bnd (chpl_malloc (size_t (8 * loc_num_devices))) (\<lambda>_.
     bnd (chpl_malloc (size_t (4 * loc_num_devices))) (\<lambda>_.
     bnd (\<lambda>w. ret () (w\<lparr>chpl_gpu_primary_ctx := [], chpl_gpu_devices := [],
                        chpl_gpu_cuda_modules := [], deviceClockRates := []\<rparr>)) (\<lambda>_.
     for_loop [0..<nat loc_num_devices] (init_device b x) ())))))))))"

definition chpl_gpu_init :: "build \<Rightarrow> extern \<Rightarrow> unit M" where
  "chpl_gpu_init b x =
     bnd (\<lambda>w. ret () (w\<lparr>chpl_gpu_num_devices := - 1\<rparr>)) (\<lambda>_.
     bnd (case chpl_env_rt_get x ''NUM_GPUS_PER_LOCALE'' of
            None \<Rightarrow> ret ()
          | Some env \<Rightarrow>
              bnd (case sscanf_SCNi32 x env of
                     None \<Rightarrow> chpl_error
                       ''Cannot parse CHPL_RT_NUM_GPUS_PER_LOCALE environment variable''
                   | Some v \<Rightarrow> (\<lambda>w. ret () (w\<lparr>chpl_gpu_num_devices := v\<rparr>))) (\<lambda>_.
              bnd (\<lambda>w. ret (chpl_gpu_num_devices w) w) (\<lambda>n.
              if n < 0 then chpl_error ''CHPL_RT_NUM_GPUS_PER_LOCALE must be >= 0''
              else ret ()))) (\<lambda>_.
     bnd (chpl_gpu_impl_init b x) (\<lambda>_.
     bnd (\<lambda>w. ret (chpl_gpu_num_devices w) w) (\<lambda>n.
     c_assert b ''chpl_gpu_num_devices >= 0'' (n \<ge> 0)))))"

section \<open>Observations\<close>

text \<open>The events a call added to the trace.\<close>

definition new_events :: "world \<Rightarrow> world \<Rightarrow> event list" where
  "new_events w w' = drop (length (trace w)) (trace w')"

text \<open>The state of the device-context state machine, read the way
  \<^verbatim>\<open>switch_context\<close> reads it.\<close>

datatype ctx_state = Inactive | Active CUcontext

definition device_context :: "world \<Rightarrow> ctx_state" where
  "device_context w =
     (if chpl_gpu_has_context w then Active (snd (cuCtxGetCurrent w)) else Inactive)"

fun is_push :: "event \<Rightarrow> bool" where
  "is_push (E_cuCtxPushCurrent c) = True"
| "is_push e = False"

fun is_pop :: "event \<Rightarrow> bool" where
  "is_pop (E_cuCtxPopCurrent c) = True"
| "is_pop e = False"

definition pushes :: "event list \<Rightarrow> nat" where
  "pushes tr = length (filter is_push tr)"

definition pops :: "event list \<Rightarrow> nat" where
  "pops tr = length (filter is_pop tr)"

text \<open>The events a successful \<^verbatim>\<open>switch_context\<close> to the context \<open>c\<close> adds.\<close>

definition switch_events :: "world \<Rightarrow> CUcontext \<Rightarrow> event list" where
  "switch_events w c =
     (case device_context w of
        Inactive \<Rightarrow> [E_cuCtxPushCurrent c]
      | Active cur \<Rightarrow> if cur = c then [] else [E_cuCtxPopCurrent cur, E_cuCtxPushCurrent c])"

text \<open>Device \<open>d\<close> can be switched to: the driver is initialised and \<open>d\<close> indexes a
  non-null entry of \<open>chpl_gpu_primary_ctx\<close>.\<close>

definition device_ctx :: "world \<Rightarrow> int \<Rightarrow> CUcontext" where
  "device_ctx w d = (case c_index (chpl_gpu_primary_ctx w) d of None \<Rightarrow> NULL | Some c \<Rightarrow> c)"

definition device_ready :: "world \<Rightarrow> int \<Rightarrow> bool" where
  "device_ready w d = (cu_initialized w \<and> device_ctx w d \<noteq> NULL)"

text \<open>Device \<open>d\<close> can be switched to and its context is the current one.\<close>

definition on_device :: "world \<Rightarrow> int \<Rightarrow> bool" where
  "on_device w d = (device_ready w d \<and> device_context w = Active (device_ctx w d))"

text \<open>The world a successful \<^verbatim>\<open>chpl_gpu_impl_use_device(d)\<close> leaves.\<close>

definition switched :: "world \<Rightarrow> int \<Rightarrow> world" where
  "switched w d =
     w\<lparr>trace := trace w @ switch_events w (device_ctx w d),
       ctx_stack := (case device_context w of
                       Inactive \<Rightarrow> device_ctx w d # ctx_stack w
                     | Active cur \<Rightarrow> if cur = device_ctx w d then ctx_stack w
                                     else device_ctx w d # tl (ctx_stack w))\<rparr>"

definition ctx_switch_only :: "event list \<Rightarrow> bool" where
  "ctx_switch_only evs = list_all (\<lambda>e. is_push e \<or> is_pop e) evs"

text \<open>The event moves \<open>n\<close> bytes from \<open>src\<close> to \<open>dst\<close>, by a plain local move or by
  one of the three driver copies.\<close>

definition is_copy_of :: "ptr \<Rightarrow> ptr \<Rightarrow> nat \<Rightarrow> event \<Rightarrow> bool" where
  "is_copy_of dst src n e =
     (e = E_memmove dst src n \<or> e = E_cuMemcpyDtoD dst src n
      \<or> e = E_cuMemcpyDtoH dst src n \<or> e = E_cuMemcpyHtoD dst src n)"

text \<open>What a local copy of \<open>n\<close> bytes from \<open>src\<close> to \<open>dst\<close> may leave behind: no
  address is handed out; the trace grows by context switches and, exactly when the
  call returns, by one final event that moves the bytes.\<close>

definition copy_outcome :: "ptr \<Rightarrow> ptr \<Rightarrow> nat \<Rightarrow> world \<Rightarrow> (error + unit) \<times> world \<Rightarrow> bool" where
  "copy_outcome dst src n w res =
     (case res of (r, w') \<Rightarrow>
        next_addr w' = next_addr w \<and>
        (\<exists>sw. ctx_switch_only sw \<and>
           (case r of
              Inl e \<Rightarrow> trace w' = trace w @ sw
            | Inr u \<Rightarrow> (\<exists>mv. is_copy_of dst src n mv \<and> trace w' = trace w @ sw @ [mv]))))"

text \<open>The direct network transfers, and every call that hands work to the network.\<close>

fun is_direct_transport :: "event \<Rightarrow> bool" where
  "is_direct_transport (E_gen_comm_put buf node raddr n) = True"
| "is_direct_transport (E_gen_comm_get buf node raddr n) = True"
| "is_direct_transport e = False"

fun is_transport :: "event \<Rightarrow> bool" where
  "is_transport (E_gen_comm_put buf node raddr n) = True"
| "is_transport (E_gen_comm_get buf node raddr n) = True"
| "is_transport (E_comm_on_get s buf node rs raddr n) = True"
| "is_transport (E_comm_on_put s buf node rs raddr n) = True"
| "is_transport e = False"

text \<open>The world \<^verbatim>\<open>chpl_malloc(n)\<close> leaves; the buffer it returns is
  \<open>Suc (next_addr w)\<close>.\<close>

definition after_malloc :: "world \<Rightarrow> nat \<Rightarrow> world" where
  "after_malloc w n =
     w\<lparr>trace := trace w @ [E_chpl_malloc n (Suc (next_addr w))], next_addr := Suc (next_addr w)\<rparr>"

text \<open>The buffer \<open>buf\<close> handed to the network is on the host: it is the caller's
  pointer \<open>p\<close> with a negative sub-locale, or a staging buffer that \<^verbatim>\<open>chpl_malloc\<close>
  returned among the events \<open>evs\<close>.\<close>

fun is_malloc_of :: "ptr \<Rightarrow> event \<Rightarrow> bool" where
  "is_malloc_of buf (E_chpl_malloc n p) = (p = buf)"
| "is_malloc_of buf e = False"

definition host_buffer :: "event list \<Rightarrow> c_sublocid_t \<Rightarrow> ptr \<Rightarrow> ptr \<Rightarrow> bool" where
  "host_buffer evs subloc p buf =
     (if subloc < 0 then buf = p else list_ex (is_malloc_of buf) evs)"

text \<open>The driver's answer for \<open>p\<close> is one \<^verbatim>\<open>chpl_gpu_impl_is_host_ptr\<close> accepts (it is
  fatal on any other error code), and what the function then returns.\<close>

definition classifiable :: "extern \<Rightarrow> ptr \<Rightarrow> bool" where
  "classifiable x p =
     (fst (cuPointerGetAttribute x p) \<in>
        {CUDA_SUCCESS, CUDA_ERROR_INVALID_VALUE, CUDA_ERROR_NOT_INITIALIZED,
         CUDA_ERROR_DEINITIALIZED})"

definition host_memory :: "extern \<Rightarrow> ptr \<Rightarrow> bool" where
  "host_memory x p =
     (case cuPointerGetAttribute x p of (r, t) \<Rightarrow>
        if r = CUDA_SUCCESS then t = CU_MEMORYTYPE_HOST else True)"

text \<open>The driver call by which \<^verbatim>\<open>chpl_gpu_impl_mem_alloc\<close> obtains \<open>n\<close> bytes at \<open>p\<close>,
  and the one by which \<^verbatim>\<open>chpl_gpu_impl_mem_free\<close> releases a non-null \<open>p\<close>.\<close>

definition alloc_event :: "build \<Rightarrow> nat \<Rightarrow> ptr \<Rightarrow> event" where
  "alloc_event b n p =
     (if CHPL_GPU_MEM_STRATEGY_ARRAY_ON_DEVICE b then E_cuMemAllocHost n p
      else E_cuMemAllocManaged n p)"

definition free_event :: "build \<Rightarrow> extern \<Rightarrow> ptr \<Rightarrow> event" where
  "free_event b x p =
     (if CHPL_GPU_MEM_STRATEGY_ARRAY_ON_DEVICE b \<and> host_memory x p then E_cuMemFreeHost p
      else E_cuMemFree p)"

text \<open>The two assertions \<^verbatim>\<open>chpl_gpu_impl_set_globals\<close> makes for device \<open>i\<close> hold, or
  assertions are compiled out: the module's \<^verbatim>\<open>chpl_nodeID\<close> has the size of a node
  identifier and lies in device memory.\<close>

definition globals_ok :: "build \<Rightarrow> extern \<Rightarrow> nat \<Rightarrow> bool" where
  "globals_ok b x i =
     (NDEBUG b \<or>
      (case cuModuleGetGlobal x
              (chpl_gpu_load_module x (cuDevicePrimaryCtxRetain x (cuDeviceGet x i)))
              ''chpl_nodeID'' of
         (p, glob_size) \<Rightarrow> glob_size = sizeof_c_nodeid_t \<and> chpl_gpu_is_device_ptr x p))"

text \<open>What the first loop of \<^verbatim>\<open>chpl_gpu_launch_kernel_help\<close> produces when the last
  address handed out before it is \<open>a\<close>: each by-value argument takes two addresses, one
  for the host cell \<open>kernel_params[i]\<close> and one for its device buffer. \<open>staged_copies\<close>
  lists, per by-value argument, the device buffer with the host pointer and size
  copied into it; \<open>staged_buffers\<close> the device buffers; \<open>staged_params\<close> the entries of
  \<open>kernel_params\<close>; \<open>staging_events\<close> the calls made.\<close>

fun staged_copies :: "nat \<Rightarrow> (ptr \<times> nat) list \<Rightarrow> (ptr \<times> ptr \<times> nat) list" where
  "staged_copies a [] = []"
| "staged_copies a ((p, n) # args) =
     (if 0 < n then (Suc (Suc a), p, n) # staged_copies (Suc (Suc a)) args
      else staged_copies a args)"

definition staged_buffers :: "nat \<Rightarrow> (ptr \<times> nat) list \<Rightarrow> ptr list" where
  "staged_buffers a args = map fst (staged_copies a args)"

fun staged_params :: "nat \<Rightarrow> (ptr \<times> nat) list \<Rightarrow> kernel_param list" where
  "staged_params a [] = []"
| "staged_params a ((p, n) # args) =
     (if 0 < n then (Suc a, Some (Suc (Suc a))) # staged_params (Suc (Suc a)) args
      else (p, None) # staged_params a args)"

fun staging_events :: "build \<Rightarrow> nat \<Rightarrow> (ptr \<times> nat) list \<Rightarrow> event list" where
  "staging_events b a [] = []"
| "staging_events b a ((p, n) # args) =
     (if 0 < n then
        [E_chpl_malloc 8 (Suc a), E_memhook_malloc_pre 1 n, alloc_event b n (Suc (Suc a)),
         E_memhook_malloc_post (Suc (Suc a)) 1 n, E_cuMemcpyHtoD (Suc (Suc a)) p n]
        @ staging_events b (Suc (Suc a)) args
      else staging_events b a args)"

definition by_value :: "(ptr \<times> nat) list \<Rightarrow> (ptr \<times> nat) list" where
  "by_value args = filter (\<lambda>(p, n). 0 < n) args"

definition pass_through :: "(ptr \<times> nat) list \<Rightarrow> (ptr \<times> nat) list" where
  "pass_through args = filter (\<lambda>(p, n). n = 0) args"

text \<open>The calls that free the device buffers \<open>qs\<close> in order.\<close>

definition free_events :: "build \<Rightarrow> extern \<Rightarrow> ptr list \<Rightarrow> event list" where
  "free_events b x qs = concat (map (\<lambda>q. [E_memhook_free_pre q, free_event b x q]) qs)"

text \<open>Device buffers obtained from, and released to, the driver by a list of events, the
  host-to-device copies among them, and the blocks given back to the host allocator.\<close>

fun device_alloc_of :: "event \<Rightarrow> ptr list" where
  "device_alloc_of (E_cuMemAlloc n p) = [p]"
| "device_alloc_of (E_cuMemAllocHost n p) = [p]"
| "device_alloc_of (E_cuMemAllocManaged n p) = [p]"
| "device_alloc_of e = []"

fun device_free_of :: "event \<Rightarrow> ptr list" where
  "device_free_of (E_cuMemFree p) = [p]"
| "device_free_of (E_cuMemFreeHost p) = [p]"
| "device_free_of e = []"

fun host_to_device_of :: "event \<Rightarrow> (ptr \<times> ptr \<times> nat) list" where
  "host_to_device_of (E_cuMemcpyHtoD dst src n) = [(dst, src, n)]"
| "host_to_device_of e = []"

fun host_free_of :: "event \<Rightarrow> ptr list" where
  "host_free_of (E_chpl_free p) = [p]"
| "host_free_of (E_chpl_mem_free p) = [p]"
| "host_free_of e = []"

definition device_allocs :: "event list \<Rightarrow> ptr list" where
  "device_allocs evs = concat (map device_alloc_of evs)"

definition device_frees :: "event list \<Rightarrow> ptr list" where
  "device_frees evs = concat (map device_free_of evs)"

definition host_to_device_copies :: "event list \<Rightarrow> (ptr \<times> ptr \<times> nat) list" where
  "host_to_device_copies evs = concat (map host_to_device_of evs)"

definition host_frees :: "event list \<Rightarrow> ptr list" where
  "host_frees evs = concat (map host_free_of evs)"

section \<open>Concrete inputs\<close>

text \<open>A node with two initialised devices whose primary contexts are \<open>11\<close> and
  \<open>22\<close>; the context of device 0 is current.\<close>

definition demo_world :: world where
  "demo_world = \<lparr>trace = [], ctx_stack = [11], cu_initialized = True, chpl_gpu_num_devices = 2,
     chpl_gpu_primary_ctx = [11, 22], chpl_gpu_devices = [0, 1], chpl_gpu_cuda_modules = [5, 6],
     deviceClockRates = [1000, 1000], diags = (\<lambda>_. 0), next_addr = 100\<rparr>"

text \<open>A debug build for the ArrayOnDevice strategy, and collaborators for which \<open>7\<close>
  and \<open>8\<close> are device allocations, every address above \<open>100\<close> is page-locked memory
  the device can reach, and every other address is plain host memory.\<close>

definition demo_build :: build where
  "demo_build = \<lparr>CHPL_GPU_MEM_STRATEGY_ARRAY_ON_DEVICE = True, GPU_RUNTIME_CPU = False,
     NDEBUG = False\<rparr>"

definition demo_extern :: extern where
  "demo_extern = \<lparr>
     cuPointerGetAttribute = (\<lambda>p. if p = 7 \<or> p = 8 then (CUDA_SUCCESS, CU_MEMORYTYPE_DEVICE)
                                 else if p > 100 then (CUDA_SUCCESS, CU_MEMORYTYPE_HOST)
                                 else (CUDA_ERROR_INVALID_VALUE, CU_MEMORYTYPE_HOST)),
     chpl_gpu_common_is_device_ptr = (\<lambda>p. p = 7 \<or> p = 8 \<or> p > 100),
     chpl_gpu_common_get_alloc_size = (\<lambda>p. if p = 7 then 64 else 0),
     chpl_task_getRequestedSubloc = 0,
     c_sublocid_any = - 2,
     chpl_gpu_load_function = (\<lambda>m name. 900 + m),
     chpl_gpu_load_module = (\<lambda>c. c + 1),
     chpl_env_rt_get = (\<lambda>name. None),
     sscanf_SCNi32 = (\<lambda>s. None),
     cuDeviceGetCount = 2,
     cuDeviceGet = (\<lambda>i. i),
     cuDevicePrimaryCtxRetain = (\<lambda>d. 11 * (d + 1)),
     cuDeviceGetAttribute_CLOCK_RATE = (\<lambda>d. 1000),
     cuModuleGetGlobal = (\<lambda>m name. (8, 4)),
     addr_chpl_nodeID = 3\<rparr>"

text \<open>The world before initialisation, and an environment that sets
  \<^verbatim>\<open>CHPL_RT_NUM_GPUS_PER_LOCALE\<close> to the text \<open>v\<close>, which \<^verbatim>\<open>sscanf\<close> reads as \<open>n\<close>.\<close>

definition boot_world :: world where
  "boot_world = \<lparr>trace = [], ctx_stack = [], cu_initialized = False, chpl_gpu_num_devices = - 1,
     chpl_gpu_primary_ctx = [], chpl_gpu_devices = [], chpl_gpu_cuda_modules = [],
     deviceClockRates = [], diags = (\<lambda>_. 0), next_addr = 100\<rparr>"

definition with_env :: "string \<Rightarrow> int option \<Rightarrow> extern" where
  "with_env v n =
     demo_extern\<lparr>chpl_env_rt_get := (\<lambda>name. if name = ''NUM_GPUS_PER_LOCALE'' then Some v else None),
                 sscanf_SCNi32 := (\<lambda>s. if s = v then n else None)\<rparr>"

section \<open>Properties\<close>

subsection \<open>Sequencing\<close>

lemma bnd_ret: "bnd (ret x) f = f x"
  by (rule ext) (simp add: bnd_def ret_def)

lemma bnd_abort: "bnd (abort e) f = abort e"
  by (rule ext) (simp add: bnd_def abort_def)

lemma bnd_Inr: "m w = (Inr x, w') \<Longrightarrow> bnd m f w = f x w'"
  by (simp add: bnd_def)

lemma bnd_Inl: "m w = (Inl e, w') \<Longrightarrow> bnd m f w = (Inl e, w')"
  by (simp add: bnd_def)

lemma bnd_emit: "bnd (emit ev) f w = f () (w\<lparr>trace := trace w @ [ev]\<rparr>)"
  by (simp add: bnd_def emit_def)

subsection \<open>The device-context state machine\<close>

lemmas ctx_defs = switch_context_def device_context_def chpl_gpu_has_context_def
  cuCtxGetCurrent_def cuCtxPushCurrent_def cuCtxPopCurrent_def CUDA_CALL_def bnd_def ret_def
  abort_def chpl_internal_error_def

lemma switch_context_inactive:
  assumes "cu_initialized w" "c_index (chpl_gpu_primary_ctx w) d = Some c"
    and "device_context w = Inactive"
  shows "switch_context d w =
     (Inr (), w\<lparr>trace := trace w @ [E_cuCtxPushCurrent c], ctx_stack := c # ctx_stack w\<rparr>)"
  using assms by (simp add: ctx_defs split: list.splits if_splits)

lemma switch_context_same:
  assumes "cu_initialized w" "c_index (chpl_gpu_primary_ctx w) d = Some c"
    and "device_context w = Active c"
  shows "switch_context d w = (Inr (), w)"
  using assms by (simp add: ctx_defs split: list.splits if_splits)

lemma switch_context_other:
  assumes "cu_initialized w" "c_index (chpl_gpu_primary_ctx w) d = Some c"
    and "device_context w = Active c'" "c' \<noteq> c"
  shows "switch_context d w =
     (Inr (), w\<lparr>trace := trace w @ [E_cuCtxPopCurrent c', E_cuCtxPushCurrent c],
               ctx_stack := c # tl (ctx_stack w)\<rparr>)"
  using assms by (simp add: ctx_defs split: list.splits if_splits)

lemma c_index_distinct:
  assumes "distinct a" "c_index a i = Some c" "c_index a j = Some c'" "i \<noteq> j"
  shows "c \<noteq> c'"
  using assms by (auto simp: c_index_def distinct_conv_nth split: if_splits)

lemma device_context_cases:
  obtains "device_context w = Inactive" | c' where "device_context w = Active c'"
  by (cases "device_context w") auto

text \<open>Claim C9. With the driver initialised and \<open>c\<close> the non-null primary context of
  device \<open>d\<close>: from \<open>Inactive\<close>, \<open>switch_context d\<close> pushes \<open>c\<close> once; from
  \<open>Active c\<close> it does nothing at all; from the context of another device it pops that
  context and pushes \<open>c\<close>, one pop and one push. In every case the state afterwards is
  \<open>Active c\<close>, at most one push was made, and switching to \<open>d\<close> again changes
  nothing.\<close>

theorem switch_context_state_machine:
  assumes init: "cu_initialized w"
    and ctx: "c_index (chpl_gpu_primary_ctx w) d = Some c"
    and nonnull: "c \<noteq> NULL"
    and dist: "distinct (chpl_gpu_primary_ctx w)"
  shows "(device_context w = Inactive \<longrightarrow>
            switch_context d w =
              (Inr (), w\<lparr>trace := trace w @ [E_cuCtxPushCurrent c],
                        ctx_stack := c # ctx_stack w\<rparr>))
       \<and> (device_context w = Active c \<longrightarrow> switch_context d w = (Inr (), w))
       \<and> (\<forall>other c'. other \<noteq> d \<and> c_index (chpl_gpu_primary_ctx w) other = Some c'
              \<and> device_context w = Active c' \<longrightarrow>
            switch_context d w =
              (Inr (), w\<lparr>trace := trace w @ [E_cuCtxPopCurrent c', E_cuCtxPushCurrent c],
                        ctx_stack := c # tl (ctx_stack w)\<rparr>))
       \<and> device_context (snd (switch_context d w)) = Active c
       \<and> pushes (new_events w (snd (switch_context d w))) \<le> 1
       \<and> switch_context d (snd (switch_context d w)) = (Inr (), snd (switch_context d w))"
proof -
  have inactive: "device_context w = Inactive \<longrightarrow>
      switch_context d w =
        (Inr (), w\<lparr>trace := trace w @ [E_cuCtxPushCurrent c], ctx_stack := c # ctx_stack w\<rparr>)"
    using switch_context_inactive [OF init ctx] by blast
  have same: "device_context w = Active c \<longrightarrow> switch_context d w = (Inr (), w)"
    using switch_context_same [OF init ctx] by blast
  have other: "\<forall>other c'. other \<noteq> d \<and> c_index (chpl_gpu_primary_ctx w) other = Some c'
        \<and> device_context w = Active c' \<longrightarrow>
      switch_context d w =
        (Inr (), w\<lparr>trace := trace w @ [E_cuCtxPopCurrent c', E_cuCtxPushCurrent c],
                  ctx_stack := c # tl (ctx_stack w)\<rparr>)"
    using switch_context_other [OF init ctx] c_index_distinct [OF dist _ ctx] by blast
  have after: "device_context (snd (switch_context d w)) = Active c
      \<and> pushes (new_events w (snd (switch_context d w))) \<le> 1
      \<and> cu_initialized (snd (switch_context d w))
      \<and> chpl_gpu_primary_ctx (snd (switch_context d w)) = chpl_gpu_primary_ctx w"
  proof (cases w rule: device_context_cases)
    case 1
    then show ?thesis
      using switch_context_inactive [OF init ctx 1] init nonnull
      by (simp add: device_context_def chpl_gpu_has_context_def cuCtxGetCurrent_def
          pushes_def new_events_def)
  next
    case (2 c')
    show ?thesis
    proof (cases "c' = c")
      case True
      then show ?thesis
        using switch_context_same [OF init ctx] 2 init
        by (simp add: pushes_def new_events_def)
    next
      case False
      then show ?thesis
        using switch_context_other [OF init ctx 2 False] init nonnull
        by (simp add: device_context_def chpl_gpu_has_context_def cuCtxGetCurrent_def
            pushes_def new_events_def)
    qed
  qed
  have again: "switch_context d (snd (switch_context d w)) = (Inr (), snd (switch_context d w))"
    using after ctx by (intro switch_context_same [where c = c]) simp_all
  from inactive same other after again show ?thesis by blast
qed

theorem switch_context_state_machine_witness:
  "cu_initialized demo_world
   \<and> c_index (chpl_gpu_primary_ctx demo_world) 1 = Some 22
   \<and> distinct (chpl_gpu_primary_ctx demo_world)
   \<and> device_context demo_world = Active 11
   \<and> switch_context 1 demo_world =
       (Inr (), demo_world\<lparr>trace := [E_cuCtxPopCurrent 11, E_cuCtxPushCurrent 22],
                          ctx_stack := [22]\<rparr>)
   \<and> switch_context 1 (snd (switch_context 1 demo_world)) = (Inr (), snd (switch_context 1 demo_world))"
proof -
  have h: "cu_initialized demo_world" "c_index (chpl_gpu_primary_ctx demo_world) 1 = Some 22"
    "(22::nat) \<noteq> NULL" "distinct (chpl_gpu_primary_ctx demo_world)"
    "c_index (chpl_gpu_primary_ctx demo_world) 0 = Some 11"
    "device_context demo_world = Active 11"
    by (simp_all add: demo_world_def c_index_def device_context_def chpl_gpu_has_context_def
        cuCtxGetCurrent_def)
  note t = switch_context_state_machine [OF h(1-4)]
  have other: "(0::int) \<noteq> 1 \<and> c_index (chpl_gpu_primary_ctx demo_world) 0 = Some 11
      \<and> device_context demo_world = Active 11"
    using h by simp
  from t other have step: "switch_context 1 demo_world =
      (Inr (), demo_world\<lparr>trace := trace demo_world @ [E_cuCtxPopCurrent 11, E_cuCtxPushCurrent 22],
                         ctx_stack := 22 # tl (ctx_stack demo_world)\<rparr>)"
    by blast
  from t have again: "switch_context 1 (snd (switch_context 1 demo_world)) =
      (Inr (), snd (switch_context 1 demo_world))"
    by blast
  have "demo_world\<lparr>trace := trace demo_world @ [E_cuCtxPopCurrent 11, E_cuCtxPushCurrent 22],
                         ctx_stack := 22 # tl (ctx_stack demo_world)\<rparr>
        = demo_world\<lparr>trace := [E_cuCtxPopCurrent 11, E_cuCtxPushCurrent 22], ctx_stack := [22]\<rparr>"
    by (simp add: demo_world_def)
  with step again h show ?thesis by simp
qed

subsection \<open>Local copies\<close>

lemma is_host_ptr_world:
  "chpl_gpu_impl_is_host_ptr x p w = (fst (chpl_gpu_impl_is_host_ptr x p w0), w)"
  by (simp add: chpl_gpu_impl_is_host_ptr_def CUDA_CALL_def bnd_def ret_def abort_def
      split: prod.splits)

lemma is_host_ptr_Inr:
  "fst (chpl_gpu_impl_is_host_ptr x p w0) = Inr h \<Longrightarrow> chpl_gpu_impl_is_host_ptr x p w = (Inr h, w)"
  using is_host_ptr_world [of x p w w0] by simp

lemma use_device_ready:
  "device_ready w d \<Longrightarrow> chpl_gpu_impl_use_device d w = (Inr (), switched w d)"
  by (cases "c_index (chpl_gpu_primary_ctx w) d"; cases "ctx_stack w")
     (auto simp: chpl_gpu_impl_use_device_def device_ready_def device_ctx_def switched_def
        switch_events_def ctx_defs split: if_splits)

lemma use_device_on:
  "on_device w d \<Longrightarrow> chpl_gpu_impl_use_device d w = (Inr (), w)"
  by (cases "c_index (chpl_gpu_primary_ctx w) d"; cases "ctx_stack w")
     (auto simp: chpl_gpu_impl_use_device_def on_device_def device_ready_def device_ctx_def
        ctx_defs split: if_splits)

lemma on_device_switched: "device_ready w d \<Longrightarrow> on_device (switched w d) d"
  by (cases "ctx_stack w")
     (auto simp: on_device_def device_ready_def device_ctx_def switched_def
        device_context_def chpl_gpu_has_context_def cuCtxGetCurrent_def split: if_splits)

lemma switched_fields [simp]:
  "next_addr (switched w d) = next_addr w"
  "diags (switched w d) = diags w"
  "cu_initialized (switched w d) = cu_initialized w"
  "chpl_gpu_primary_ctx (switched w d) = chpl_gpu_primary_ctx w"
  "chpl_gpu_cuda_modules (switched w d) = chpl_gpu_cuda_modules w"
  "chpl_gpu_num_devices (switched w d) = chpl_gpu_num_devices w"
  "trace (switched w d) = trace w @ switch_events w (device_ctx w d)"
  by (simp_all add: switched_def)

lemma on_device_frame [simp]:
  "on_device (w\<lparr>trace := t\<rparr>) d = on_device w d"
  "on_device (w\<lparr>next_addr := a\<rparr>) d = on_device w d"
  "on_device (w\<lparr>diags := g\<rparr>) d = on_device w d"
  by (simp_all add: on_device_def device_ready_def device_ctx_def device_context_def
      chpl_gpu_has_context_def cuCtxGetCurrent_def)

lemma ctx_switch_only_switch_events [simp]: "ctx_switch_only (switch_events w c)"
  by (simp add: ctx_switch_only_def switch_events_def split: ctx_state.splits)

lemma switch_context_frame:
  assumes "switch_context d w = (r, w')"
  obtains sw where "trace w' = trace w @ sw" "ctx_switch_only sw" "next_addr w' = next_addr w"
    "diags w' = diags w"
  using assms
  by (cases "ctx_stack w")
     (auto simp: ctx_defs ctx_switch_only_def split: if_splits option.splits prod.splits)


lemma dev_copy_outcome:
  assumes "is_copy_of dst src n mv"
  shows "copy_outcome dst src n w
     (bnd (c_assert b m1 c1) (\<lambda>_. bnd (chpl_gpu_impl_use_device dev) (\<lambda>_.
      bnd (chpl_gpu_diags_incr k) (\<lambda>_. bnd (c_assert b m2 c2) (\<lambda>_. emit mv)))) w)"
proof (cases "NDEBUG b \<or> c1")
  case False
  then show ?thesis
    by (auto simp: copy_outcome_def c_assert_def bnd_def abort_def ctx_switch_only_def)
next
  case True
  obtain r w1 where sw: "switch_context dev w = (r, w1)"
    by (cases "switch_context dev w")
  from switch_context_frame [OF sw] obtain evs where
    evs: "trace w1 = trace w @ evs" "ctx_switch_only evs" "next_addr w1 = next_addr w"
    by blast
  show ?thesis
  proof (cases r)
    case (Inl e)
    with True sw evs show ?thesis
      by (auto simp: copy_outcome_def c_assert_def bnd_def ret_def chpl_gpu_impl_use_device_def)
  next
    case (Inr u)
    with True sw evs assms show ?thesis
      by (auto simp: copy_outcome_def c_assert_def bnd_def ret_def abort_def emit_def
          chpl_gpu_impl_use_device_def chpl_gpu_diags_incr_def)
  qed
qed

lemma is_copy_of_simps [simp]:
  "is_copy_of dst src n (E_memmove dst src n)"
  "is_copy_of dst src n (E_cuMemcpyDtoD dst src n)"
  "is_copy_of dst src n (E_cuMemcpyDtoH dst src n)"
  "is_copy_of dst src n (E_cuMemcpyHtoD dst src n)"
  by (simp_all add: is_copy_of_def)

lemma copy_device_to_device_outcome:
  "copy_outcome dst src n w (chpl_gpu_copy_device_to_device b x dd dst sd src n w)"
  unfolding chpl_gpu_copy_device_to_device_def chpl_gpu_impl_copy_device_to_device_def
  by (rule dev_copy_outcome) simp

lemma copy_device_to_host_outcome:
  "copy_outcome dst src n w (chpl_gpu_copy_device_to_host b x dst sd src n w)"
  unfolding chpl_gpu_copy_device_to_host_def chpl_gpu_impl_copy_device_to_host_def
  by (rule dev_copy_outcome) simp

lemma copy_host_to_device_outcome:
  "copy_outcome dst src n w (chpl_gpu_copy_host_to_device b x dd dst src n w)"
  unfolding chpl_gpu_copy_host_to_device_def chpl_gpu_impl_copy_host_to_device_def
  by (rule dev_copy_outcome) simp

lemma memmove_outcome: "copy_outcome dst src n w (emit (E_memmove dst src n) w)"
  by (auto simp: copy_outcome_def emit_def ctx_switch_only_def intro!: exI [of _ "[]"])

lemma abort_outcome: "copy_outcome dst src n w (Inl e, w)"
  by (auto simp: copy_outcome_def ctx_switch_only_def intro!: exI [of _ "[]"])

lemma memcpy_outcome:
  "copy_outcome dst src n w (chpl_gpu_memcpy b x ds dst ss src n w)"
proof -
  obtain rd where rd: "\<And>w. chpl_gpu_impl_is_host_ptr x dst w = (rd, w)"
    using is_host_ptr_world by blast
  obtain rs where rs: "\<And>w. chpl_gpu_impl_is_host_ptr x src w = (rs, w)"
    using is_host_ptr_world by blast
  show ?thesis
    by (cases rd; cases rs)
       (simp_all add: chpl_gpu_memcpy_def bnd_def rd rs memmove_outcome abort_outcome
          copy_device_to_device_outcome copy_device_to_host_outcome copy_host_to_device_outcome
          c_assert_def ret_def)
qed


lemmas copy_defs = chpl_gpu_copy_device_to_device_def chpl_gpu_copy_device_to_host_def
  chpl_gpu_copy_host_to_device_def chpl_gpu_impl_copy_device_to_device_def
  chpl_gpu_impl_copy_device_to_host_def chpl_gpu_impl_copy_host_to_device_def
  chpl_gpu_diags_incr_def c_assert_def emit_def ret_def abort_def

lemma copy_device_to_device_ready:
  assumes "device_ready w dd" "NDEBUG b \<or> (chpl_gpu_is_device_ptr x dst \<and> chpl_gpu_is_device_ptr x src)"
  shows "chpl_gpu_copy_device_to_device b x dd dst sd src n w =
     (Inr (), (switched w dd)\<lparr>diags := (diags w)(device_to_device := Suc (diags w device_to_device)),
        trace := trace w @ switch_events w (device_ctx w dd) @ [E_cuMemcpyDtoD dst src n]\<rparr>)"
  using assms by (auto simp: copy_defs bnd_def use_device_ready)

lemma copy_device_to_host_ready:
  assumes "device_ready w sd" "NDEBUG b \<or> chpl_gpu_is_device_ptr x src"
  shows "chpl_gpu_copy_device_to_host b x dst sd src n w =
     (Inr (), (switched w sd)\<lparr>diags := (diags w)(device_to_host := Suc (diags w device_to_host)),
        trace := trace w @ switch_events w (device_ctx w sd) @ [E_cuMemcpyDtoH dst src n]\<rparr>)"
  using assms by (auto simp: copy_defs bnd_def use_device_ready)

lemma copy_host_to_device_ready:
  assumes "device_ready w dd" "NDEBUG b \<or> chpl_gpu_is_device_ptr x dst"
  shows "chpl_gpu_copy_host_to_device b x dd dst src n w =
     (Inr (), (switched w dd)\<lparr>diags := (diags w)(host_to_device := Suc (diags w host_to_device)),
        trace := trace w @ switch_events w (device_ctx w dd) @ [E_cuMemcpyHtoD dst src n]\<rparr>)"
  using assms by (auto simp: copy_defs bnd_def use_device_ready)

lemma memcpy_unified:
  "\<not> CHPL_GPU_MEM_STRATEGY_ARRAY_ON_DEVICE b \<Longrightarrow>
   chpl_gpu_memcpy b x ds dst ss src n w = (Inr (), w\<lparr>trace := trace w @ [E_memmove dst src n]\<rparr>)"
  by (simp add: chpl_gpu_memcpy_def emit_def)

lemma memcpy_both_negative:
  "ds < 0 \<Longrightarrow> ss < 0 \<Longrightarrow>
   chpl_gpu_memcpy b x ds dst ss src n w = (Inr (), w\<lparr>trace := trace w @ [E_memmove dst src n]\<rparr>)"
  by (simp add: chpl_gpu_memcpy_def emit_def)

lemma memcpy_queried:
  assumes "CHPL_GPU_MEM_STRATEGY_ARRAY_ON_DEVICE b" "\<not> (ds < 0 \<and> ss < 0)"
    and "fst (chpl_gpu_impl_is_host_ptr x dst w) = Inr dst_on_host"
    and "fst (chpl_gpu_impl_is_host_ptr x src w) = Inr src_on_host"
  shows "chpl_gpu_memcpy b x ds dst ss src n w =
     (if \<not> dst_on_host \<and> \<not> src_on_host then chpl_gpu_copy_device_to_device b x ds dst ss src n w
      else if \<not> dst_on_host then chpl_gpu_copy_host_to_device b x ds dst src n w
      else if \<not> src_on_host then chpl_gpu_copy_device_to_host b x dst ss src n w
      else (Inr (), w\<lparr>trace := trace w @ [E_memmove dst src n]\<rparr>))"
  using assms is_host_ptr_Inr [of x dst w dst_on_host] is_host_ptr_Inr [of x src w src_on_host]
  by (auto simp: chpl_gpu_memcpy_def bnd_def c_assert_def ret_def emit_def)

text \<open>Claim C3. Under the Unified strategy the copy is one plain local move whatever
  the sub-locale tags are. Under ArrayOnDevice it is a plain local move when both tags
  are negative; otherwise the backend's answers \<open>dst_on_host\<close> and \<open>src_on_host\<close>
  select device-to-device (neither on the host), host-to-device (only the source on
  the host), device-to-host (only the destination on the host), or a plain local move
  (both on the host). Each of the three device copies, when its device can be switched
  to and its assertions hold, switches to that device, counts the event once and issues
  the one driver copy.\<close>

theorem chpl_gpu_memcpy_dispatch:
  "(\<not> CHPL_GPU_MEM_STRATEGY_ARRAY_ON_DEVICE b \<longrightarrow>
      chpl_gpu_memcpy b x ds dst ss src n w =
        (Inr (), w\<lparr>trace := trace w @ [E_memmove dst src n]\<rparr>))
   \<and> (CHPL_GPU_MEM_STRATEGY_ARRAY_ON_DEVICE b \<and> ds < 0 \<and> ss < 0 \<longrightarrow>
      chpl_gpu_memcpy b x ds dst ss src n w =
        (Inr (), w\<lparr>trace := trace w @ [E_memmove dst src n]\<rparr>))
   \<and> (CHPL_GPU_MEM_STRATEGY_ARRAY_ON_DEVICE b \<and> \<not> (ds < 0 \<and> ss < 0) \<longrightarrow>
      (\<forall>dst_on_host src_on_host.
         fst (chpl_gpu_impl_is_host_ptr x dst w) = Inr dst_on_host
         \<and> fst (chpl_gpu_impl_is_host_ptr x src w) = Inr src_on_host \<longrightarrow>
         chpl_gpu_memcpy b x ds dst ss src n w =
           (if \<not> dst_on_host \<and> \<not> src_on_host
              then chpl_gpu_copy_device_to_device b x ds dst ss src n w
            else if \<not> dst_on_host then chpl_gpu_copy_host_to_device b x ds dst src n w
            else if \<not> src_on_host then chpl_gpu_copy_device_to_host b x dst ss src n w
            else (Inr (), w\<lparr>trace := trace w @ [E_memmove dst src n]\<rparr>))))
   \<and> (device_ready w ds
        \<and> (NDEBUG b \<or> (chpl_gpu_is_device_ptr x dst \<and> chpl_gpu_is_device_ptr x src)) \<longrightarrow>
      chpl_gpu_copy_device_to_device b x ds dst ss src n w =
        (Inr (), (switched w ds)\<lparr>
           diags := (diags w)(device_to_device := Suc (diags w device_to_device)),
           trace := trace w @ switch_events w (device_ctx w ds) @ [E_cuMemcpyDtoD dst src n]\<rparr>))
   \<and> (device_ready w ds \<and> (NDEBUG b \<or> chpl_gpu_is_device_ptr x dst) \<longrightarrow>
      chpl_gpu_copy_host_to_device b x ds dst src n w =
        (Inr (), (switched w ds)\<lparr>
           diags := (diags w)(host_to_device := Suc (diags w host_to_device)),
           trace := trace w @ switch_events w (device_ctx w ds) @ [E_cuMemcpyHtoD dst src n]\<rparr>))
   \<and> (device_ready w ss \<and> (NDEBUG b \<or> chpl_gpu_is_device_ptr x src) \<longrightarrow>
      chpl_gpu_copy_device_to_host b x dst ss src n w =
        (Inr (), (switched w ss)\<lparr>
           diags := (diags w)(device_to_host := Suc (diags w device_to_host)),
           trace := trace w @ switch_events w (device_ctx w ss) @ [E_cuMemcpyDtoH dst src n]\<rparr>))"
  using memcpy_unified [of b x ds dst ss src n w] memcpy_both_negative [of ds ss b x dst src n w]
    memcpy_queried [of b ds ss x dst w _ src _ n]
    copy_device_to_device_ready [of w ds b x dst src ss n]
    copy_host_to_device_ready [of w ds b x dst src n]
    copy_device_to_host_ready [of w ss b x src dst n]
  by blast


lemma demo_ready: "device_ready demo_world 0" "device_ready demo_world 1"
  by (simp_all add: device_ready_def device_ctx_def c_index_def demo_world_def)

theorem chpl_gpu_memcpy_dispatch_witness:
  "CHPL_GPU_MEM_STRATEGY_ARRAY_ON_DEVICE demo_build
   \<and> fst (chpl_gpu_impl_is_host_ptr demo_extern 50 demo_world) = Inr True
   \<and> fst (chpl_gpu_impl_is_host_ptr demo_extern 7 demo_world) = Inr False
   \<and> device_ready demo_world 1
   \<and> chpl_gpu_is_device_ptr demo_extern 7
   \<and> chpl_gpu_memcpy demo_build demo_extern (- 2) 50 1 7 64 demo_world =
       (Inr (), demo_world\<lparr>
          trace := [E_cuCtxPopCurrent 11, E_cuCtxPushCurrent 22, E_cuMemcpyDtoH 50 7 64],
          ctx_stack := [22],
          diags := (\<lambda>c. if c = device_to_host then 1 else 0)\<rparr>)"
proof -
  have q: "CHPL_GPU_MEM_STRATEGY_ARRAY_ON_DEVICE demo_build"
    "\<not> ((- 2 :: int) < 0 \<and> (1 :: int) < 0)"
    "fst (chpl_gpu_impl_is_host_ptr demo_extern 50 demo_world) = Inr True"
    "fst (chpl_gpu_impl_is_host_ptr demo_extern 7 demo_world) = Inr False"
    "chpl_gpu_is_device_ptr demo_extern 7"
    by (simp_all add: demo_build_def demo_extern_def chpl_gpu_impl_is_host_ptr_def ret_def
        chpl_gpu_is_device_ptr_def chpl_gpu_impl_is_device_ptr_def)
  note t = chpl_gpu_memcpy_dispatch [of demo_build demo_extern "- 2" 50 1 7 64 demo_world]
  from t q have "chpl_gpu_memcpy demo_build demo_extern (- 2) 50 1 7 64 demo_world =
      chpl_gpu_copy_device_to_host demo_build demo_extern 50 1 7 64 demo_world"
    by auto
  also from t q demo_ready(2) have "\<dots> =
      (Inr (), (switched demo_world 1)\<lparr>
         diags := (diags demo_world)(device_to_host := Suc (diags demo_world device_to_host)),
         trace := trace demo_world @ switch_events demo_world (device_ctx demo_world 1)
                    @ [E_cuMemcpyDtoH 50 7 64]\<rparr>)"
    by blast
  also have "\<dots> = (Inr (), demo_world\<lparr>
          trace := [E_cuCtxPopCurrent 11, E_cuCtxPushCurrent 22, E_cuMemcpyDtoH 50 7 64],
          ctx_stack := [22],
          diags := (\<lambda>c. if c = device_to_host then 1 else 0)\<rparr>)"
    by (auto simp: switched_def switch_events_def device_ctx_def c_index_def device_context_def
        chpl_gpu_has_context_def cuCtxGetCurrent_def demo_world_def fun_eq_iff)
  finally show ?thesis using q demo_ready(2) by simp
qed

subsection \<open>Distributed put and get\<close>

lemma chpl_malloc_result: "chpl_malloc n w = (Inr (Suc (next_addr w)), after_malloc w n)"
  by (simp add: chpl_malloc_def fresh_def bnd_def emit_def ret_def after_malloc_def)

lemma put_host_source:
  "src_subloc < 0 \<Longrightarrow>
   chpl_gpu_comm_put b x dst_node dst_subloc dst src_subloc src n w =
     (Inr (), w\<lparr>trace := trace w @
        [if 0 \<le> dst_subloc then E_comm_on_get src_subloc src dst_node dst_subloc dst n
         else E_gen_comm_put src dst_node dst n]\<rparr>)"
  by (simp add: chpl_gpu_comm_put_def bnd_def ret_def emit_def)

lemma put_device_source:
  "0 \<le> src_subloc \<Longrightarrow>
   chpl_gpu_comm_put b x dst_node dst_subloc dst src_subloc src n w =
     (case chpl_gpu_memcpy b x (c_sublocid_any x) (Suc (next_addr w)) src_subloc src n
             (after_malloc w n) of
        (Inl e, w2) \<Rightarrow> (Inl e, w2)
      | (Inr u, w2) \<Rightarrow>
          (Inr (), w2\<lparr>trace := trace w2 @
             [if 0 \<le> dst_subloc
              then E_comm_on_get (c_sublocid_any x) (Suc (next_addr w)) dst_node dst_subloc dst n
              else E_gen_comm_put (Suc (next_addr w)) dst_node dst n,
              E_chpl_free (Suc (next_addr w))]\<rparr>))"
  by (simp add: chpl_gpu_comm_put_def bnd_def ret_def emit_def chpl_malloc_result chpl_free_def
      split: prod.splits sum.splits)

lemma get_host_destination:
  "dst_subloc < 0 \<Longrightarrow>
   chpl_gpu_comm_get b x dst_subloc dst src_node src_subloc src n w =
     (Inr (), w\<lparr>trace := trace w @
        [if 0 \<le> src_subloc then E_comm_on_put dst_subloc dst src_node src_subloc src n
         else E_gen_comm_get dst src_node src n]\<rparr>)"
  by (simp add: chpl_gpu_comm_get_def bnd_def ret_def emit_def)

lemma get_device_destination:
  "0 \<le> dst_subloc \<Longrightarrow>
   chpl_gpu_comm_get b x dst_subloc dst src_node src_subloc src n w =
     (case chpl_gpu_memcpy b x dst_subloc dst (c_sublocid_any x) (Suc (next_addr w)) n
             ((after_malloc w n)\<lparr>trace := trace (after_malloc w n) @
                [if 0 \<le> src_subloc
                 then E_comm_on_put (c_sublocid_any x) (Suc (next_addr w)) src_node src_subloc src n
                 else E_gen_comm_get (Suc (next_addr w)) src_node src n]\<rparr>) of
        (Inl e, w2) \<Rightarrow> (Inl e, w2)
      | (Inr u, w2) \<Rightarrow> (Inr (), w2\<lparr>trace := trace w2 @ [E_chpl_free (Suc (next_addr w))]\<rparr>))"
  by (simp add: chpl_gpu_comm_get_def bnd_def ret_def emit_def chpl_malloc_result chpl_free_def
      split: prod.splits sum.splits)

lemma after_malloc_fields [simp]:
  "trace (after_malloc w n) = trace w @ [E_chpl_malloc n (Suc (next_addr w))]"
  "next_addr (after_malloc w n) = Suc (next_addr w)"
  "diags (after_malloc w n) = diags w"
  "ctx_stack (after_malloc w n) = ctx_stack w"
  by (simp_all add: after_malloc_def)

lemma device_frame [simp]:
  "device_ctx (w\<lparr>trace := t\<rparr>) d = device_ctx w d"
  "device_ctx (w\<lparr>next_addr := a\<rparr>) d = device_ctx w d"
  "device_ctx (w\<lparr>diags := g\<rparr>) d = device_ctx w d"
  "device_ready (w\<lparr>trace := t\<rparr>) d = device_ready w d"
  "device_ready (w\<lparr>next_addr := a\<rparr>) d = device_ready w d"
  "device_ready (w\<lparr>diags := g\<rparr>) d = device_ready w d"
  "device_context (w\<lparr>trace := t\<rparr>) = device_context w"
  "device_context (w\<lparr>next_addr := a\<rparr>) = device_context w"
  "device_context (w\<lparr>diags := g\<rparr>) = device_context w"
  "switch_events (w\<lparr>trace := t\<rparr>) c = switch_events w c"
  "switch_events (w\<lparr>next_addr := a\<rparr>) c = switch_events w c"
  "switch_events (w\<lparr>diags := g\<rparr>) c = switch_events w c"
  by (simp_all add: device_ready_def device_ctx_def device_context_def switch_events_def
      chpl_gpu_has_context_def cuCtxGetCurrent_def)

lemma after_malloc_frame [simp]:
  "device_ctx (after_malloc w n) d = device_ctx w d"
  "device_ready (after_malloc w n) d = device_ready w d"
  "device_context (after_malloc w n) = device_context w"
  "switch_events (after_malloc w n) c = switch_events w c"
  "on_device (after_malloc w n) d = on_device w d"
  by (simp_all add: after_malloc_def)

lemma switched_frame:
  "switched (w\<lparr>trace := t\<rparr>) d = (switched w d)\<lparr>trace := t @ switch_events w (device_ctx w d)\<rparr>"
  "switched (w\<lparr>next_addr := a\<rparr>) d = (switched w d)\<lparr>next_addr := a\<rparr>"
  "switched (w\<lparr>diags := g\<rparr>) d = (switched w d)\<lparr>diags := g\<rparr>"
  by (simp_all add: switched_def split: ctx_state.splits)

lemma switched_after_malloc:
  "switched (after_malloc w n) d =
     (switched w d)\<lparr>trace := trace w @ E_chpl_malloc n (Suc (next_addr w))
                                # switch_events w (device_ctx w d),
                     next_addr := Suc (next_addr w)\<rparr>"
  by (simp add: after_malloc_def switched_frame)

lemma new_events_append [simp]: "trace w' = trace w @ evs \<Longrightarrow> new_events w w' = evs"
  by (simp add: new_events_def)


lemma put_returns_shape:
  assumes "0 \<le> src_subloc"
    and "chpl_gpu_comm_put b x dst_node dst_subloc dst src_subloc src n w = (Inr (), w')"
  shows "\<exists>sw mv. ctx_switch_only sw \<and> is_copy_of (Suc (next_addr w)) src n mv \<and>
     new_events w w' = E_chpl_malloc n (Suc (next_addr w)) # sw @
       [mv,
        if 0 \<le> dst_subloc
        then E_comm_on_get (c_sublocid_any x) (Suc (next_addr w)) dst_node dst_subloc dst n
        else E_gen_comm_put (Suc (next_addr w)) dst_node dst n,
        E_chpl_free (Suc (next_addr w))]"
proof -
  obtain r w2 where m: "chpl_gpu_memcpy b x (c_sublocid_any x) (Suc (next_addr w)) src_subloc src n
      (after_malloc w n) = (r, w2)"
    by (cases "chpl_gpu_memcpy b x (c_sublocid_any x) (Suc (next_addr w)) src_subloc src n
      (after_malloc w n)")
  from assms m obtain u where r: "r = Inr u"
    by (cases r) (simp_all add: put_device_source)
  from memcpy_outcome [of "Suc (next_addr w)" src n "after_malloc w n" b x "c_sublocid_any x" src_subloc]
  obtain sw mv where sw: "ctx_switch_only sw" "is_copy_of (Suc (next_addr w)) src n mv"
      "trace w2 = trace (after_malloc w n) @ sw @ [mv]"
    unfolding m r copy_outcome_def by auto
  from assms m r have "w' = w2\<lparr>trace := trace w2 @
             [if 0 \<le> dst_subloc
              then E_comm_on_get (c_sublocid_any x) (Suc (next_addr w)) dst_node dst_subloc dst n
              else E_gen_comm_put (Suc (next_addr w)) dst_node dst n,
              E_chpl_free (Suc (next_addr w))]\<rparr>"
    by (simp add: put_device_source)
  with sw show ?thesis
    by (intro exI [of _ sw] exI [of _ mv]) (simp add: new_events_def)
qed

lemma put_staged_device_to_host:
  assumes a: "0 \<le> src_subloc \<and> CHPL_GPU_MEM_STRATEGY_ARRAY_ON_DEVICE b
        \<and> fst (chpl_gpu_impl_is_host_ptr x (Suc (next_addr w)) w) = Inr True
        \<and> fst (chpl_gpu_impl_is_host_ptr x src w) = Inr False
        \<and> device_ready w src_subloc \<and> (NDEBUG b \<or> chpl_gpu_is_device_ptr x src)"
  shows "chpl_gpu_comm_put b x dst_node dst_subloc dst src_subloc src n w =
        (Inr (), (switched w src_subloc)\<lparr>
           next_addr := Suc (next_addr w),
           diags := (diags w)(device_to_host := Suc (diags w device_to_host)),
           trace := trace w @ E_chpl_malloc n (Suc (next_addr w))
             # switch_events w (device_ctx w src_subloc) @
             [E_cuMemcpyDtoH (Suc (next_addr w)) src n,
              if 0 \<le> dst_subloc
              then E_comm_on_get (c_sublocid_any x) (Suc (next_addr w)) dst_node dst_subloc dst n
              else E_gen_comm_put (Suc (next_addr w)) dst_node dst n,
              E_chpl_free (Suc (next_addr w))]\<rparr>)"
proof -
  from a have q: "fst (chpl_gpu_impl_is_host_ptr x (Suc (next_addr w)) (after_malloc w n)) = Inr True"
    "fst (chpl_gpu_impl_is_host_ptr x src (after_malloc w n)) = Inr False"
    using is_host_ptr_world [of x "Suc (next_addr w)" "after_malloc w n" w]
      is_host_ptr_world [of x src "after_malloc w n" w]
    by (metis fst_conv)+
  from a have "chpl_gpu_memcpy b x (c_sublocid_any x) (Suc (next_addr w)) src_subloc src n
      (after_malloc w n) =
      chpl_gpu_copy_device_to_host b x (Suc (next_addr w)) src_subloc src n (after_malloc w n)"
    using memcpy_queried [OF _ _ q, of b "c_sublocid_any x" src_subloc n] by simp
  with a show ?thesis
    by (simp add: put_device_source copy_device_to_host_ready switched_after_malloc)
qed

text \<open>Claim C1. With a host source (negative sub-locale) the put is the one transfer of
  the caller's buffer. With a device source the staging buffer \<open>Suc (next_addr w)\<close> is
  allocated first and filled by the local copy engine; whenever that copy returns, the
  put returns too, and what a returning put added to the trace is: the allocation,
  context switches, one event that moves the \<open>n\<close> bytes from \<open>src\<close> into the staging
  buffer, then the transfer (the remote get on \<open>dst_node\<close> into \<open>dst\<close> when the
  destination sub-locale is a device, the direct network put otherwise), then the
  release of the staging buffer. Under ArrayOnDevice, with the staging buffer
  classified as host memory and the source as device memory, the copy is the driver's
  device-to-host copy.\<close>

theorem chpl_gpu_comm_put_steps:
  "(src_subloc < 0 \<longrightarrow>
      chpl_gpu_comm_put b x dst_node dst_subloc dst src_subloc src n w =
        (Inr (), w\<lparr>trace := trace w @
           [if 0 \<le> dst_subloc then E_comm_on_get src_subloc src dst_node dst_subloc dst n
            else E_gen_comm_put src dst_node dst n]\<rparr>))
   \<and> (0 \<le> src_subloc \<longrightarrow>
        (\<forall>w2. chpl_gpu_memcpy b x (c_sublocid_any x) (Suc (next_addr w)) src_subloc src n
                (after_malloc w n) = (Inr (), w2) \<longrightarrow>
           chpl_gpu_comm_put b x dst_node dst_subloc dst src_subloc src n w =
             (Inr (), w2\<lparr>trace := trace w2 @
                [if 0 \<le> dst_subloc
                 then E_comm_on_get (c_sublocid_any x) (Suc (next_addr w)) dst_node dst_subloc dst n
                 else E_gen_comm_put (Suc (next_addr w)) dst_node dst n,
                 E_chpl_free (Suc (next_addr w))]\<rparr>))
        \<and> (\<forall>w'. chpl_gpu_comm_put b x dst_node dst_subloc dst src_subloc src n w = (Inr (), w') \<longrightarrow>
             (\<exists>sw mv. ctx_switch_only sw \<and> is_copy_of (Suc (next_addr w)) src n mv \<and>
                new_events w w' = E_chpl_malloc n (Suc (next_addr w)) # sw @
                  [mv,
                   if 0 \<le> dst_subloc
                   then E_comm_on_get (c_sublocid_any x) (Suc (next_addr w)) dst_node dst_subloc dst n
                   else E_gen_comm_put (Suc (next_addr w)) dst_node dst n,
                   E_chpl_free (Suc (next_addr w))])))
   \<and> (0 \<le> src_subloc \<and> CHPL_GPU_MEM_STRATEGY_ARRAY_ON_DEVICE b
        \<and> fst (chpl_gpu_impl_is_host_ptr x (Suc (next_addr w)) w) = Inr True
        \<and> fst (chpl_gpu_impl_is_host_ptr x src w) = Inr False
        \<and> device_ready w src_subloc \<and> (NDEBUG b \<or> chpl_gpu_is_device_ptr x src) \<longrightarrow>
      chpl_gpu_comm_put b x dst_node dst_subloc dst src_subloc src n w =
        (Inr (), (switched w src_subloc)\<lparr>
           next_addr := Suc (next_addr w),
           diags := (diags w)(device_to_host := Suc (diags w device_to_host)),
           trace := trace w @ E_chpl_malloc n (Suc (next_addr w))
             # switch_events w (device_ctx w src_subloc) @
             [E_cuMemcpyDtoH (Suc (next_addr w)) src n,
              if 0 \<le> dst_subloc
              then E_comm_on_get (c_sublocid_any x) (Suc (next_addr w)) dst_node dst_subloc dst n
              else E_gen_comm_put (Suc (next_addr w)) dst_node dst n,
              E_chpl_free (Suc (next_addr w))]\<rparr>))"
proof (intro conjI impI allI)
  assume "src_subloc < 0"
  then show "chpl_gpu_comm_put b x dst_node dst_subloc dst src_subloc src n w =
        (Inr (), w\<lparr>trace := trace w @
           [if 0 \<le> dst_subloc then E_comm_on_get src_subloc src dst_node dst_subloc dst n
            else E_gen_comm_put src dst_node dst n]\<rparr>)"
    by (rule put_host_source)
next
  fix w2
  assume "0 \<le> src_subloc"
    and "chpl_gpu_memcpy b x (c_sublocid_any x) (Suc (next_addr w)) src_subloc src n
                (after_malloc w n) = (Inr (), w2)"
  then show "chpl_gpu_comm_put b x dst_node dst_subloc dst src_subloc src n w =
             (Inr (), w2\<lparr>trace := trace w2 @
                [if 0 \<le> dst_subloc
                 then E_comm_on_get (c_sublocid_any x) (Suc (next_addr w)) dst_node dst_subloc dst n
                 else E_gen_comm_put (Suc (next_addr w)) dst_node dst n,
                 E_chpl_free (Suc (next_addr w))]\<rparr>)"
    by (simp add: put_device_source)
next
  fix w'
  assume "0 \<le> src_subloc"
    and "chpl_gpu_comm_put b x dst_node dst_subloc dst src_subloc src n w = (Inr (), w')"
  then show "\<exists>sw mv. ctx_switch_only sw \<and> is_copy_of (Suc (next_addr w)) src n mv \<and>
                new_events w w' = E_chpl_malloc n (Suc (next_addr w)) # sw @
                  [mv,
                   if 0 \<le> dst_subloc
                   then E_comm_on_get (c_sublocid_any x) (Suc (next_addr w)) dst_node dst_subloc dst n
                   else E_gen_comm_put (Suc (next_addr w)) dst_node dst n,
                   E_chpl_free (Suc (next_addr w))]"
    by (rule put_returns_shape)
next
  assume "0 \<le> src_subloc \<and> CHPL_GPU_MEM_STRATEGY_ARRAY_ON_DEVICE b
        \<and> fst (chpl_gpu_impl_is_host_ptr x (Suc (next_addr w)) w) = Inr True
        \<and> fst (chpl_gpu_impl_is_host_ptr x src w) = Inr False
        \<and> device_ready w src_subloc \<and> (NDEBUG b \<or> chpl_gpu_is_device_ptr x src)"
  then show "chpl_gpu_comm_put b x dst_node dst_subloc dst src_subloc src n w =
        (Inr (), (switched w src_subloc)\<lparr>
           next_addr := Suc (next_addr w),
           diags := (diags w)(device_to_host := Suc (diags w device_to_host)),
           trace := trace w @ E_chpl_malloc n (Suc (next_addr w))
             # switch_events w (device_ctx w src_subloc) @
             [E_cuMemcpyDtoH (Suc (next_addr w)) src n,
              if 0 \<le> dst_subloc
              then E_comm_on_get (c_sublocid_any x) (Suc (next_addr w)) dst_node dst_subloc dst n
              else E_gen_comm_put (Suc (next_addr w)) dst_node dst n,
              E_chpl_free (Suc (next_addr w))]\<rparr>)"
    by (rule put_staged_device_to_host)
qed


lemma get_returns_shape:
  assumes "0 \<le> dst_subloc"
    and "chpl_gpu_comm_get b x dst_subloc dst src_node src_subloc src n w = (Inr (), w')"
  shows "\<exists>sw mv. ctx_switch_only sw \<and> is_copy_of dst (Suc (next_addr w)) n mv \<and>
     new_events w w' = E_chpl_malloc n (Suc (next_addr w))
       # (if 0 \<le> src_subloc
          then E_comm_on_put (c_sublocid_any x) (Suc (next_addr w)) src_node src_subloc src n
          else E_gen_comm_get (Suc (next_addr w)) src_node src n)
       # sw @ [mv, E_chpl_free (Suc (next_addr w))]"
proof -
  define w1 where "w1 = (after_malloc w n)\<lparr>trace := trace (after_malloc w n) @
                [if 0 \<le> src_subloc
                 then E_comm_on_put (c_sublocid_any x) (Suc (next_addr w)) src_node src_subloc src n
                 else E_gen_comm_get (Suc (next_addr w)) src_node src n]\<rparr>"
  obtain r w2 where m: "chpl_gpu_memcpy b x dst_subloc dst (c_sublocid_any x) (Suc (next_addr w)) n
      w1 = (r, w2)"
    by (cases "chpl_gpu_memcpy b x dst_subloc dst (c_sublocid_any x) (Suc (next_addr w)) n w1")
  from assms m obtain u where r: "r = Inr u"
    by (cases r) (simp_all add: get_device_destination w1_def)
  from memcpy_outcome [of dst "Suc (next_addr w)" n w1 b x dst_subloc "c_sublocid_any x"]
  obtain sw mv where sw: "ctx_switch_only sw" "is_copy_of dst (Suc (next_addr w)) n mv"
      "trace w2 = trace w1 @ sw @ [mv]"
    unfolding m r copy_outcome_def by auto
  from assms m r have "w' = w2\<lparr>trace := trace w2 @ [E_chpl_free (Suc (next_addr w))]\<rparr>"
    by (simp add: get_device_destination w1_def)
  with sw show ?thesis
    by (intro exI [of _ sw] exI [of _ mv]) (simp add: new_events_def w1_def)
qed

lemma get_staged_host_to_device:
  assumes a: "0 \<le> dst_subloc \<and> CHPL_GPU_MEM_STRATEGY_ARRAY_ON_DEVICE b
        \<and> fst (chpl_gpu_impl_is_host_ptr x dst w) = Inr False
        \<and> fst (chpl_gpu_impl_is_host_ptr x (Suc (next_addr w)) w) = Inr True
        \<and> device_ready w dst_subloc \<and> (NDEBUG b \<or> chpl_gpu_is_device_ptr x dst)"
  shows "chpl_gpu_comm_get b x dst_subloc dst src_node src_subloc src n w =
        (Inr (), (switched w dst_subloc)\<lparr>
           next_addr := Suc (next_addr w),
           diags := (diags w)(host_to_device := Suc (diags w host_to_device)),
           trace := trace w @ E_chpl_malloc n (Suc (next_addr w))
             # (if 0 \<le> src_subloc
                then E_comm_on_put (c_sublocid_any x) (Suc (next_addr w)) src_node src_subloc src n
                else E_gen_comm_get (Suc (next_addr w)) src_node src n)
             # switch_events w (device_ctx w dst_subloc) @
             [E_cuMemcpyHtoD dst (Suc (next_addr w)) n, E_chpl_free (Suc (next_addr w))]\<rparr>)"
proof -
  define w1 where "w1 = (after_malloc w n)\<lparr>trace := trace (after_malloc w n) @
                [if 0 \<le> src_subloc
                 then E_comm_on_put (c_sublocid_any x) (Suc (next_addr w)) src_node src_subloc src n
                 else E_gen_comm_get (Suc (next_addr w)) src_node src n]\<rparr>"
  from a have q: "fst (chpl_gpu_impl_is_host_ptr x dst w1) = Inr False"
    "fst (chpl_gpu_impl_is_host_ptr x (Suc (next_addr w)) w1) = Inr True"
    using is_host_ptr_world [of x "Suc (next_addr w)" w1 w] is_host_ptr_world [of x dst w1 w]
    by (metis fst_conv)+
  from a have ready: "device_ready w1 dst_subloc"
    by (simp add: w1_def)
  from a have "chpl_gpu_memcpy b x dst_subloc dst (c_sublocid_any x) (Suc (next_addr w)) n w1 =
      chpl_gpu_copy_host_to_device b x dst_subloc dst (Suc (next_addr w)) n w1"
    using memcpy_queried [OF _ _ q, of b dst_subloc "c_sublocid_any x" n] by simp
  with a ready have "chpl_gpu_memcpy b x dst_subloc dst (c_sublocid_any x) (Suc (next_addr w)) n w1 =
      (Inr (), (switched w1 dst_subloc)\<lparr>
         diags := (diags w1)(host_to_device := Suc (diags w1 host_to_device)),
         trace := trace w1 @ switch_events w1 (device_ctx w1 dst_subloc)
                    @ [E_cuMemcpyHtoD dst (Suc (next_addr w)) n]\<rparr>)"
    by (simp add: copy_host_to_device_ready)
  with a show ?thesis
    unfolding get_device_destination [of dst_subloc b x dst src_node src_subloc src n w, OF conjunct1 [OF a]]
      w1_def [symmetric]
    by (simp add: w1_def switched_frame switched_after_malloc)
qed

text \<open>Claim C2. With a host destination the get is the one transfer into the caller's
  buffer. With a device destination the staging buffer \<open>Suc (next_addr w)\<close> is allocated
  first, the transfer fills it (the remote put on \<open>src_node\<close> from \<open>src\<close> when the
  source sub-locale is a device, the direct network get otherwise), the local copy
  engine then moves the \<open>n\<close> bytes from the staging buffer to \<open>dst\<close>, and the staging
  buffer is released last; whenever the copy returns, the get returns. Under
  ArrayOnDevice, with the destination classified as device memory and the staging
  buffer as host memory, the copy is the driver's host-to-device copy.\<close>

theorem chpl_gpu_comm_get_steps:
  "(dst_subloc < 0 \<longrightarrow>
      chpl_gpu_comm_get b x dst_subloc dst src_node src_subloc src n w =
        (Inr (), w\<lparr>trace := trace w @
           [if 0 \<le> src_subloc then E_comm_on_put dst_subloc dst src_node src_subloc src n
            else E_gen_comm_get dst src_node src n]\<rparr>))
   \<and> (0 \<le> dst_subloc \<longrightarrow>
        (\<forall>w2. chpl_gpu_memcpy b x dst_subloc dst (c_sublocid_any x) (Suc (next_addr w)) n
                ((after_malloc w n)\<lparr>trace := trace (after_malloc w n) @
                   [if 0 \<le> src_subloc
                    then E_comm_on_put (c_sublocid_any x) (Suc (next_addr w)) src_node src_subloc src n
                    else E_gen_comm_get (Suc (next_addr w)) src_node src n]\<rparr>) = (Inr (), w2) \<longrightarrow>
           chpl_gpu_comm_get b x dst_subloc dst src_node src_subloc src n w =
             (Inr (), w2\<lparr>trace := trace w2 @ [E_chpl_free (Suc (next_addr w))]\<rparr>))
        \<and> (\<forall>w'. chpl_gpu_comm_get b x dst_subloc dst src_node src_subloc src n w = (Inr (), w') \<longrightarrow>
             (\<exists>sw mv. ctx_switch_only sw \<and> is_copy_of dst (Suc (next_addr w)) n mv \<and>
                new_events w w' = E_chpl_malloc n (Suc (next_addr w))
                  # (if 0 \<le> src_subloc
                     then E_comm_on_put (c_sublocid_any x) (Suc (next_addr w)) src_node src_subloc src n
                     else E_gen_comm_get (Suc (next_addr w)) src_node src n)
                  # sw @ [mv, E_chpl_free (Suc (next_addr w))])))
   \<and> (0 \<le> dst_subloc \<and> CHPL_GPU_MEM_STRATEGY_ARRAY_ON_DEVICE b
        \<and> fst (chpl_gpu_impl_is_host_ptr x dst w) = Inr False
        \<and> fst (chpl_gpu_impl_is_host_ptr x (Suc (next_addr w)) w) = Inr True
        \<and> device_ready w dst_subloc \<and> (NDEBUG b \<or> chpl_gpu_is_device_ptr x dst) \<longrightarrow>
      chpl_gpu_comm_get b x dst_subloc dst src_node src_subloc src n w =
        (Inr (), (switched w dst_subloc)\<lparr>
           next_addr := Suc (next_addr w),
           diags := (diags w)(host_to_device := Suc (diags w host_to_device)),
           trace := trace w @ E_chpl_malloc n (Suc (next_addr w))
             # (if 0 \<le> src_subloc
                then E_comm_on_put (c_sublocid_any x) (Suc (next_addr w)) src_node src_subloc src n
                else E_gen_comm_get (Suc (next_addr w)) src_node src n)
             # switch_events w (device_ctx w dst_subloc) @
             [E_cuMemcpyHtoD dst (Suc (next_addr w)) n, E_chpl_free (Suc (next_addr w))]\<rparr>))"
proof (intro conjI impI allI)
  assume "dst_subloc < 0"
  then show "chpl_gpu_comm_get b x dst_subloc dst src_node src_subloc src n w =
        (Inr (), w\<lparr>trace := trace w @
           [if 0 \<le> src_subloc then E_comm_on_put dst_subloc dst src_node src_subloc src n
            else E_gen_comm_get dst src_node src n]\<rparr>)"
    by (rule get_host_destination)
next
  fix w2
  assume "0 \<le> dst_subloc"
    and "chpl_gpu_memcpy b x dst_subloc dst (c_sublocid_any x) (Suc (next_addr w)) n
                ((after_malloc w n)\<lparr>trace := trace (after_malloc w n) @
                   [if 0 \<le> src_subloc
                    then E_comm_on_put (c_sublocid_any x) (Suc (next_addr w)) src_node src_subloc src n
                    else E_gen_comm_get (Suc (next_addr w)) src_node src n]\<rparr>) = (Inr (), w2)"
  then show "chpl_gpu_comm_get b x dst_subloc dst src_node src_subloc src n w =
             (Inr (), w2\<lparr>trace := trace w2 @ [E_chpl_free (Suc (next_addr w))]\<rparr>)"
    by (simp add: get_device_destination)
next
  fix w'
  assume "0 \<le> dst_subloc"
    and "chpl_gpu_comm_get b x dst_subloc dst src_node src_subloc src n w = (Inr (), w')"
  then show "\<exists>sw mv. ctx_switch_only sw \<and> is_copy_of dst (Suc (next_addr w)) n mv \<and>
                new_events w w' = E_chpl_malloc n (Suc (next_addr w))
                  # (if 0 \<le> src_subloc
                     then E_comm_on_put (c_sublocid_any x) (Suc (next_addr w)) src_node src_subloc src n
                     else E_gen_comm_get (Suc (next_addr w)) src_node src n)
                  # sw @ [mv, E_chpl_free (Suc (next_addr w))]"
    by (rule get_returns_shape)
next
  assume "0 \<le> dst_subloc \<and> CHPL_GPU_MEM_STRATEGY_ARRAY_ON_DEVICE b
        \<and> fst (chpl_gpu_impl_is_host_ptr x dst w) = Inr False
        \<and> fst (chpl_gpu_impl_is_host_ptr x (Suc (next_addr w)) w) = Inr True
        \<and> device_ready w dst_subloc \<and> (NDEBUG b \<or> chpl_gpu_is_device_ptr x dst)"
  then show "chpl_gpu_comm_get b x dst_subloc dst src_node src_subloc src n w =
        (Inr (), (switched w dst_subloc)\<lparr>
           next_addr := Suc (next_addr w),
           diags := (diags w)(host_to_device := Suc (diags w host_to_device)),
           trace := trace w @ E_chpl_malloc n (Suc (next_addr w))
             # (if 0 \<le> src_subloc
                then E_comm_on_put (c_sublocid_any x) (Suc (next_addr w)) src_node src_subloc src n
                else E_gen_comm_get (Suc (next_addr w)) src_node src n)
             # switch_events w (device_ctx w dst_subloc) @
             [E_cuMemcpyHtoD dst (Suc (next_addr w)) n, E_chpl_free (Suc (next_addr w))]\<rparr>)"
    by (rule get_staged_host_to_device)
qed


lemma not_direct_ctx_switch:
  "ctx_switch_only sw \<Longrightarrow> e \<in> set sw \<Longrightarrow> \<not> is_direct_transport e"
  by (cases e) (auto simp: ctx_switch_only_def list_all_iff)

lemma not_direct_copy: "is_copy_of d s n mv \<Longrightarrow> \<not> is_direct_transport mv"
  by (auto simp: is_copy_of_def)

lemma put_direct_transport:
  "trace (snd (chpl_gpu_comm_put b x dst_node dst_subloc dst src_subloc src n w)) = trace w @ new_events w (snd (chpl_gpu_comm_put b x dst_node dst_subloc dst src_subloc src n w)) \<and>
     (e \<in> set (new_events w (snd (chpl_gpu_comm_put b x dst_node dst_subloc dst src_subloc src n w))) \<longrightarrow> is_direct_transport e \<longrightarrow>
         dst_subloc < 0 \<and> (\<exists>buf. e = E_gen_comm_put buf dst_node dst n
            \<and> host_buffer (new_events w (snd (chpl_gpu_comm_put b x dst_node dst_subloc dst src_subloc src n w))) src_subloc src buf))"
proof -
  define w' where "w' = snd (chpl_gpu_comm_put b x dst_node dst_subloc dst src_subloc src n w)"
  have "trace w' = trace w @ new_events w w' \<and>
     (e \<in> set (new_events w w') \<longrightarrow> is_direct_transport e \<longrightarrow>
         dst_subloc < 0 \<and> (\<exists>buf. e = E_gen_comm_put buf dst_node dst n
            \<and> host_buffer (new_events w w') src_subloc src buf))"
  proof (cases "src_subloc < 0")
    case True
    then show ?thesis
      by (auto simp: w'_def put_host_source new_events_def host_buffer_def)
  next
    case False
    obtain r w2 where m: "chpl_gpu_memcpy b x (c_sublocid_any x) (Suc (next_addr w)) src_subloc src n
        (after_malloc w n) = (r, w2)"
      by (cases "chpl_gpu_memcpy b x (c_sublocid_any x) (Suc (next_addr w)) src_subloc src n
        (after_malloc w n)")
    from memcpy_outcome [of "Suc (next_addr w)" src n "after_malloc w n" b x "c_sublocid_any x" src_subloc]
    obtain sw where sw: "ctx_switch_only sw"
      "case r of Inl e \<Rightarrow> trace w2 = trace (after_malloc w n) @ sw
       | Inr u \<Rightarrow> (\<exists>mv. is_copy_of (Suc (next_addr w)) src n mv
            \<and> trace w2 = trace (after_malloc w n) @ sw @ [mv])"
      unfolding m copy_outcome_def by auto
    show ?thesis
    proof (cases r)
      case (Inl err)
      with False m sw show ?thesis
        by (auto simp: w'_def put_device_source new_events_def dest: not_direct_ctx_switch)
    next
      case (Inr u)
      with sw obtain mv where mv: "is_copy_of (Suc (next_addr w)) src n mv"
        "trace w2 = trace (after_malloc w n) @ sw @ [mv]"
        by auto
      with False m Inr sw(1) show ?thesis
        by (auto simp: w'_def put_device_source new_events_def host_buffer_def
            dest: not_direct_ctx_switch not_direct_copy)
    qed
  qed
  then show ?thesis
    unfolding w'_def .
qed

lemma get_direct_transport:
  "trace (snd (chpl_gpu_comm_get b x dst_subloc dst src_node src_subloc src n w)) = trace w @ new_events w (snd (chpl_gpu_comm_get b x dst_subloc dst src_node src_subloc src n w)) \<and>
     (e \<in> set (new_events w (snd (chpl_gpu_comm_get b x dst_subloc dst src_node src_subloc src n w))) \<longrightarrow> is_direct_transport e \<longrightarrow>
         src_subloc < 0 \<and> (\<exists>buf. e = E_gen_comm_get buf src_node src n
            \<and> host_buffer (new_events w (snd (chpl_gpu_comm_get b x dst_subloc dst src_node src_subloc src n w))) dst_subloc dst buf))"
proof -
  define w' where "w' = snd (chpl_gpu_comm_get b x dst_subloc dst src_node src_subloc src n w)"
  have "trace w' = trace w @ new_events w w' \<and>
     (e \<in> set (new_events w w') \<longrightarrow> is_direct_transport e \<longrightarrow>
         src_subloc < 0 \<and> (\<exists>buf. e = E_gen_comm_get buf src_node src n
            \<and> host_buffer (new_events w w') dst_subloc dst buf))"
  proof (cases "dst_subloc < 0")
    case True
    then show ?thesis
      by (auto simp: w'_def get_host_destination new_events_def host_buffer_def)
  next
    case False
    define w1 where "w1 = (after_malloc w n)\<lparr>trace := trace (after_malloc w n) @
                [if 0 \<le> src_subloc
                 then E_comm_on_put (c_sublocid_any x) (Suc (next_addr w)) src_node src_subloc src n
                 else E_gen_comm_get (Suc (next_addr w)) src_node src n]\<rparr>"
    obtain r w2 where m: "chpl_gpu_memcpy b x dst_subloc dst (c_sublocid_any x) (Suc (next_addr w)) n
        w1 = (r, w2)"
      by (cases "chpl_gpu_memcpy b x dst_subloc dst (c_sublocid_any x) (Suc (next_addr w)) n w1")
    from memcpy_outcome [of dst "Suc (next_addr w)" n w1 b x dst_subloc "c_sublocid_any x"]
    obtain sw where sw: "ctx_switch_only sw"
      "case r of Inl e \<Rightarrow> trace w2 = trace w1 @ sw
       | Inr u \<Rightarrow> (\<exists>mv. is_copy_of dst (Suc (next_addr w)) n mv \<and> trace w2 = trace w1 @ sw @ [mv])"
      unfolding m copy_outcome_def by auto
    have get: "chpl_gpu_comm_get b x dst_subloc dst src_node src_subloc src n w =
        (case (r, w2) of (Inl e, w2) \<Rightarrow> (Inl e, w2)
         | (Inr u, w2) \<Rightarrow> (Inr (), w2\<lparr>trace := trace w2 @ [E_chpl_free (Suc (next_addr w))]\<rparr>))"
      using False m by (simp add: get_device_destination w1_def)
    show ?thesis
    proof (cases r)
      case (Inl err)
      with False sw show ?thesis
        by (auto simp: w'_def get new_events_def host_buffer_def w1_def
            dest: not_direct_ctx_switch)
    next
      case (Inr u)
      with sw obtain mv where mv: "is_copy_of dst (Suc (next_addr w)) n mv"
        "trace w2 = trace w1 @ sw @ [mv]"
        by auto
      with False Inr sw(1) show ?thesis
        by (auto simp: w'_def get new_events_def host_buffer_def w1_def
            dest: not_direct_ctx_switch not_direct_copy)
    qed
  qed
  then show ?thesis
    unfolding w'_def .
qed

text \<open>Claim C4. In every execution of put and of get, aborted ones included, each
  direct network transfer among the events the call added has a remote address whose
  sub-locale is negative, and a local buffer that is a host buffer: the caller's
  pointer with a negative sub-locale, or a staging buffer \<^verbatim>\<open>chpl_malloc\<close> returned
  during the call. A put issues no direct get and a get no direct put.\<close>

theorem direct_transport_only_host_buffers:
  "(trace (snd (chpl_gpu_comm_put b x dst_node dst_subloc dst src_subloc src n w)) =
      trace w @ new_events w (snd (chpl_gpu_comm_put b x dst_node dst_subloc dst src_subloc src n w))
    \<and> (\<forall>e \<in> set (new_events w
                    (snd (chpl_gpu_comm_put b x dst_node dst_subloc dst src_subloc src n w))).
          is_direct_transport e \<longrightarrow>
          dst_subloc < 0 \<and>
          (\<exists>buf. e = E_gen_comm_put buf dst_node dst n
             \<and> host_buffer (new_events w
                    (snd (chpl_gpu_comm_put b x dst_node dst_subloc dst src_subloc src n w)))
                  src_subloc src buf)))
   \<and> (trace (snd (chpl_gpu_comm_get b x dst_subloc dst src_node src_subloc src n w)) =
      trace w @ new_events w (snd (chpl_gpu_comm_get b x dst_subloc dst src_node src_subloc src n w))
    \<and> (\<forall>e \<in> set (new_events w
                    (snd (chpl_gpu_comm_get b x dst_subloc dst src_node src_subloc src n w))).
          is_direct_transport e \<longrightarrow>
          src_subloc < 0 \<and>
          (\<exists>buf. e = E_gen_comm_get buf src_node src n
             \<and> host_buffer (new_events w
                    (snd (chpl_gpu_comm_get b x dst_subloc dst src_node src_subloc src n w)))
                  dst_subloc dst buf)))"
  using put_direct_transport [of b x dst_node dst_subloc dst src_subloc src n w]
    get_direct_transport [of b x dst_subloc dst src_node src_subloc src n w]
  by blast


lemma demo_queries:
  "CHPL_GPU_MEM_STRATEGY_ARRAY_ON_DEVICE demo_build"
  "fst (chpl_gpu_impl_is_host_ptr demo_extern 101 demo_world) = Inr True"
  "fst (chpl_gpu_impl_is_host_ptr demo_extern 7 demo_world) = Inr False"
  "chpl_gpu_is_device_ptr demo_extern 7"
  "Suc (next_addr demo_world) = 101"
  "c_sublocid_any demo_extern = - 2"
  by (simp_all add: demo_build_def demo_extern_def demo_world_def chpl_gpu_impl_is_host_ptr_def
      ret_def chpl_gpu_is_device_ptr_def chpl_gpu_impl_is_device_ptr_def)

lemma demo_switch_1:
  "switched demo_world 1 = demo_world\<lparr>trace := [E_cuCtxPopCurrent 11, E_cuCtxPushCurrent 22],
      ctx_stack := [22]\<rparr>"
  "switch_events demo_world (device_ctx demo_world 1) = [E_cuCtxPopCurrent 11, E_cuCtxPushCurrent 22]"
  "diags demo_world = (\<lambda>c. 0)" "trace demo_world = []"
  by (simp_all add: switched_def switch_events_def device_ctx_def c_index_def device_context_def
      chpl_gpu_has_context_def cuCtxGetCurrent_def demo_world_def)

theorem chpl_gpu_comm_put_steps_witness:
  "(0 :: int) \<le> 1
   \<and> CHPL_GPU_MEM_STRATEGY_ARRAY_ON_DEVICE demo_build
   \<and> fst (chpl_gpu_impl_is_host_ptr demo_extern 101 demo_world) = Inr True
   \<and> fst (chpl_gpu_impl_is_host_ptr demo_extern 7 demo_world) = Inr False
   \<and> device_ready demo_world 1
   \<and> chpl_gpu_is_device_ptr demo_extern 7
   \<and> chpl_gpu_comm_put demo_build demo_extern 3 0 8 1 7 64 demo_world =
       (Inr (), demo_world\<lparr>
          trace := [E_chpl_malloc 64 101, E_cuCtxPopCurrent 11, E_cuCtxPushCurrent 22,
                    E_cuMemcpyDtoH 101 7 64, E_comm_on_get (- 2) 101 3 0 8 64, E_chpl_free 101],
          ctx_stack := [22],
          diags := (\<lambda>c. if c = device_to_host then 1 else 0),
          next_addr := 101\<rparr>)"
proof -
  note t = chpl_gpu_comm_put_steps [of 1 demo_build demo_extern 3 0 8 7 64 demo_world]
  from t demo_queries demo_ready(2)
  have "chpl_gpu_comm_put demo_build demo_extern 3 0 8 1 7 64 demo_world =
        (Inr (), (switched demo_world 1)\<lparr>
           next_addr := 101,
           diags := (diags demo_world)(device_to_host := Suc (diags demo_world device_to_host)),
           trace := trace demo_world @ E_chpl_malloc 64 101
             # switch_events demo_world (device_ctx demo_world 1) @
             [E_cuMemcpyDtoH 101 7 64, E_comm_on_get (- 2) 101 3 0 8 64, E_chpl_free 101]\<rparr>)"
    by simp
  then show ?thesis
    using demo_queries demo_ready(2) by (simp add: demo_switch_1 fun_eq_iff)
qed

theorem chpl_gpu_comm_get_steps_witness:
  "(0 :: int) \<le> 1
   \<and> CHPL_GPU_MEM_STRATEGY_ARRAY_ON_DEVICE demo_build
   \<and> fst (chpl_gpu_impl_is_host_ptr demo_extern 7 demo_world) = Inr False
   \<and> fst (chpl_gpu_impl_is_host_ptr demo_extern 101 demo_world) = Inr True
   \<and> device_ready demo_world 1
   \<and> chpl_gpu_is_device_ptr demo_extern 7
   \<and> chpl_gpu_comm_get demo_build demo_extern 1 7 3 (- 1) 60 64 demo_world =
       (Inr (), demo_world\<lparr>
          trace := [E_chpl_malloc 64 101, E_gen_comm_get 101 3 60 64, E_cuCtxPopCurrent 11,
                    E_cuCtxPushCurrent 22, E_cuMemcpyHtoD 7 101 64, E_chpl_free 101],
          ctx_stack := [22],
          diags := (\<lambda>c. if c = host_to_device then 1 else 0),
          next_addr := 101\<rparr>)"
proof -
  note t = chpl_gpu_comm_get_steps [of 1 demo_build demo_extern 7 3 "- 1" 60 64 demo_world]
  from t demo_queries demo_ready(2)
  have "chpl_gpu_comm_get demo_build demo_extern 1 7 3 (- 1) 60 64 demo_world =
        (Inr (), (switched demo_world 1)\<lparr>
           next_addr := 101,
           diags := (diags demo_world)(host_to_device := Suc (diags demo_world host_to_device)),
           trace := trace demo_world @ E_chpl_malloc 64 101
             # E_gen_comm_get 101 3 60 64
             # switch_events demo_world (device_ctx demo_world 1) @
             [E_cuMemcpyHtoD 7 101 64, E_chpl_free 101]\<rparr>)"
    by simp
  then show ?thesis
    using demo_queries demo_ready(2) by (simp add: demo_switch_1 fun_eq_iff)
qed

lemma demo_put_to_host:
  "chpl_gpu_comm_put demo_build demo_extern 3 (- 1) 60 1 7 64 demo_world =
       (Inr (), demo_world\<lparr>
          trace := [E_chpl_malloc 64 101, E_cuCtxPopCurrent 11, E_cuCtxPushCurrent 22,
                    E_cuMemcpyDtoH 101 7 64, E_gen_comm_put 101 3 60 64, E_chpl_free 101],
          ctx_stack := [22],
          diags := (\<lambda>c. if c = device_to_host then 1 else 0),
          next_addr := 101\<rparr>)"
  using put_staged_device_to_host [of 1 demo_build demo_extern demo_world 7 3 "- 1" 60 64]
    demo_queries demo_ready(2)
  by (simp add: demo_switch_1 fun_eq_iff)

theorem direct_transport_only_host_buffers_witness:
  "E_gen_comm_put 101 3 60 64 \<in> set (new_events demo_world
       (snd (chpl_gpu_comm_put demo_build demo_extern 3 (- 1) 60 1 7 64 demo_world)))
   \<and> is_direct_transport (E_gen_comm_put 101 3 60 64)
   \<and> (- 1 :: int) < 0
   \<and> host_buffer (new_events demo_world
         (snd (chpl_gpu_comm_put demo_build demo_extern 3 (- 1) 60 1 7 64 demo_world))) 1 7 101"
proof -
  have ev: "E_gen_comm_put 101 3 60 64 \<in> set (new_events demo_world
       (snd (chpl_gpu_comm_put demo_build demo_extern 3 (- 1) 60 1 7 64 demo_world)))"
    by (simp add: demo_put_to_host new_events_def demo_switch_1)
  have "\<forall>e \<in> set (new_events demo_world
       (snd (chpl_gpu_comm_put demo_build demo_extern 3 (- 1) 60 1 7 64 demo_world))).
      is_direct_transport e \<longrightarrow> (- 1 :: int) < 0 \<and>
      (\<exists>buf. e = E_gen_comm_put buf 3 60 64
         \<and> host_buffer (new_events demo_world
         (snd (chpl_gpu_comm_put demo_build demo_extern 3 (- 1) 60 1 7 64 demo_world))) 1 7 buf)"
    using direct_transport_only_host_buffers
         [of demo_build demo_extern 3 "- 1" 60 1 7 64 demo_world]
    by (rule conjunct1 [THEN conjunct2])
  from bspec [OF this ev]
  have "\<exists>buf. E_gen_comm_put 101 3 60 64 = E_gen_comm_put buf 3 60 64
      \<and> host_buffer (new_events demo_world
         (snd (chpl_gpu_comm_put demo_build demo_extern 3 (- 1) 60 1 7 64 demo_world))) 1 7 buf"
    by simp
  then have "host_buffer (new_events demo_world
         (snd (chpl_gpu_comm_put demo_build demo_extern 3 (- 1) 60 1 7 64 demo_world))) 1 7 101"
    by auto
  with ev show ?thesis by simp
qed

subsection \<open>Device memory\<close>

lemma is_host_ptr_classifiable:
  "classifiable x p \<Longrightarrow> chpl_gpu_impl_is_host_ptr x p w = (Inr (host_memory x p), w)"
  by (cases "cuPointerGetAttribute x p"; cases "fst (cuPointerGetAttribute x p)")
     (auto simp: classifiable_def host_memory_def chpl_gpu_impl_is_host_ptr_def ret_def)

lemmas mem_defs = chpl_gpu_mem_alloc_def chpl_gpu_mem_array_alloc_def chpl_gpu_mem_free_def
  chpl_gpu_impl_mem_alloc_def chpl_gpu_impl_mem_array_alloc_def chpl_gpu_impl_mem_free_def
  cuMemAlloc_def cuMemAllocHost_def cuMemAllocManaged_def fresh_def alloc_event_def
  free_event_def c_assert_def emit_def ret_def abort_def bnd_def

lemma mem_alloc_zero: "chpl_gpu_mem_alloc b x 0 w = (Inr NULL, w)"
  by (simp add: chpl_gpu_mem_alloc_def ret_def)

lemma mem_alloc_on:
  assumes "on_device w (chpl_task_getRequestedSubloc x)" "0 < n"
  shows "chpl_gpu_mem_alloc b x n w =
     (Inr (Suc (next_addr w)),
      w\<lparr>next_addr := Suc (next_addr w),
        trace := trace w @ [E_memhook_malloc_pre 1 n, alloc_event b n (Suc (next_addr w)),
                            E_memhook_malloc_post (Suc (next_addr w)) 1 n]\<rparr>)"
  using assms by (simp add: mem_defs use_device_on)

lemma mem_free_on:
  assumes "on_device w (chpl_task_getRequestedSubloc x)" "p \<noteq> NULL"
    and "NDEBUG b \<or> chpl_gpu_is_device_ptr x p" "classifiable x p"
  shows "chpl_gpu_mem_free b x p w =
     (Inr (), w\<lparr>trace := trace w @ [E_memhook_free_pre p, free_event b x p]\<rparr>)"
  using assms by (auto simp: mem_defs use_device_on is_host_ptr_classifiable)

lemma on_device_switched_frame [simp]:
  "device_ready w d \<Longrightarrow> on_device ((switched w d)\<lparr>trace := t\<rparr>) d"
  "device_ready w d \<Longrightarrow> on_device ((switched w d)\<lparr>next_addr := a, trace := t\<rparr>) d"
  using on_device_switched [of w d] by simp_all

lemma realloc_same_size:
  assumes "NDEBUG b \<or> chpl_gpu_is_device_ptr x p" "\<not> GPU_RUNTIME_CPU b"
    and "device_ready w (chpl_task_getRequestedSubloc x)"
    and "n = chpl_gpu_get_alloc_size x p"
  shows "chpl_gpu_mem_realloc b x p n w = (Inr p, switched w (chpl_task_getRequestedSubloc x))"
  using assms
  by (auto simp: chpl_gpu_mem_realloc_def c_assert_def bnd_def ret_def use_device_ready)

lemma realloc_positive:
  assumes "NDEBUG b \<or> (chpl_gpu_is_device_ptr x p \<and> chpl_gpu_is_device_ptr x (Suc (next_addr w)))"
    and "p \<noteq> NULL" "\<not> GPU_RUNTIME_CPU b" "classifiable x p"
    and "device_ready w (chpl_task_getRequestedSubloc x)"
    and "n \<noteq> chpl_gpu_get_alloc_size x p" "0 < n"
  shows "chpl_gpu_mem_realloc b x p n w =
     (Inr (Suc (next_addr w)),
      (switched w (chpl_task_getRequestedSubloc x))\<lparr>
        next_addr := Suc (next_addr w),
        trace := trace w
          @ switch_events w (device_ctx w (chpl_task_getRequestedSubloc x))
          @ [E_memhook_malloc_pre 1 n, alloc_event b n (Suc (next_addr w)),
             E_memhook_malloc_post (Suc (next_addr w)) 1 n,
             E_cuMemcpyDtoD (Suc (next_addr w)) p (min n (chpl_gpu_get_alloc_size x p)),
             E_memhook_free_pre p, free_event b x p]\<rparr>)"
proof -
  let ?d = "chpl_task_getRequestedSubloc x"
  have on: "on_device (switched w ?d) ?d"
    using assms(5) by (rule on_device_switched)
  have min: "(if n < chpl_gpu_get_alloc_size x p then n else chpl_gpu_get_alloc_size x p)
      = min n (chpl_gpu_get_alloc_size x p)"
    by (simp add: min_def)
  show ?thesis
    using assms on
    by (auto simp: chpl_gpu_mem_realloc_def chpl_gpu_impl_copy_device_to_device_def c_assert_def
        bnd_def ret_def emit_def abort_def use_device_ready mem_alloc_on mem_free_on min Let_def)
qed

lemma realloc_zero:
  assumes "NDEBUG b \<or> (chpl_gpu_is_device_ptr x p \<and> chpl_gpu_is_device_ptr x NULL)"
    and "p \<noteq> NULL" "\<not> GPU_RUNTIME_CPU b" "classifiable x p"
    and "device_ready w (chpl_task_getRequestedSubloc x)"
    and "chpl_gpu_get_alloc_size x p \<noteq> 0"
  shows "chpl_gpu_mem_realloc b x p 0 w =
     (Inr NULL,
      (switched w (chpl_task_getRequestedSubloc x))\<lparr>
        trace := trace w
          @ switch_events w (device_ctx w (chpl_task_getRequestedSubloc x))
          @ [E_cuMemcpyDtoD NULL p 0, E_memhook_free_pre p, free_event b x p]\<rparr>)"
proof -
  let ?d = "chpl_task_getRequestedSubloc x"
  have on: "on_device (switched w ?d) ?d"
    using assms(5) by (rule on_device_switched)
  show ?thesis
    using assms on
    by (auto simp: chpl_gpu_mem_realloc_def chpl_gpu_impl_copy_device_to_device_def c_assert_def
        bnd_def ret_def emit_def abort_def use_device_ready mem_alloc_zero mem_free_on Let_def)
qed

lemma realloc_zero_aborts:
  assumes "\<not> NDEBUG b" "chpl_gpu_is_device_ptr x p" "\<not> chpl_gpu_is_device_ptr x NULL"
    and "\<not> GPU_RUNTIME_CPU b"
    and "device_ready w (chpl_task_getRequestedSubloc x)"
    and "chpl_gpu_get_alloc_size x p \<noteq> 0"
  shows "chpl_gpu_mem_realloc b x p 0 w =
     (Inl (Assert_failure ''chpl_gpu_is_device_ptr(dst) && chpl_gpu_is_device_ptr(src)''),
      switched w (chpl_task_getRequestedSubloc x))"
  using assms
  by (auto simp: chpl_gpu_mem_realloc_def chpl_gpu_impl_copy_device_to_device_def c_assert_def
      bnd_def ret_def emit_def abort_def use_device_ready mem_alloc_zero Let_def)


lemma demo_on_device_0:
  "switched demo_world 0 = demo_world"
  "switch_events demo_world (device_ctx demo_world 0) = []"
  by (simp_all add: switched_def switch_events_def device_ctx_def c_index_def device_context_def
      chpl_gpu_has_context_def cuCtxGetCurrent_def demo_world_def)

lemma demo_extern_facts:
  "chpl_task_getRequestedSubloc demo_extern = 0"
  "chpl_gpu_is_device_ptr demo_extern 7"
  "chpl_gpu_is_device_ptr demo_extern 101"
  "chpl_gpu_is_device_ptr demo_extern 102"
  "\<not> chpl_gpu_is_device_ptr demo_extern NULL"
  "classifiable demo_extern 7"
  "\<not> host_memory demo_extern 7"
  "chpl_gpu_get_alloc_size demo_extern 7 = 64"
  "\<not> GPU_RUNTIME_CPU demo_build"
  "\<not> NDEBUG demo_build"
  "CHPL_GPU_MEM_STRATEGY_ARRAY_ON_DEVICE demo_build"
  "next_addr demo_world = 100"
  by (simp_all add: demo_extern_def demo_build_def demo_world_def chpl_gpu_is_device_ptr_def
      chpl_gpu_impl_is_device_ptr_def classifiable_def host_memory_def
      chpl_gpu_get_alloc_size_def chpl_gpu_impl_get_alloc_size_def)

text \<open>Reallocation where its assertions hold. For a non-null device pointer \<open>p\<close> whose residency the driver
  can report, outside CPU emulation, on a device that can be switched to: a request
  for the current size returns \<open>p\<close> and touches nothing but the device context. A
  request for another size \<open>n > 0\<close>, when the backend takes the new buffer for a
  device pointer or assertions are compiled out, allocates \<open>n\<close> bytes, copies
  \<open>min n (current size)\<close> bytes device-to-device from \<open>p\<close>, frees \<open>p\<close> and returns
  the new buffer. A request for size \<open>0\<close> does the same with the null allocation in
  place of a new buffer, when the backend takes \<open>NULL\<close> for a device pointer or
  assertions are compiled out.\<close>

lemma chpl_gpu_mem_realloc_contract:
  assumes "chpl_gpu_is_device_ptr x p" "p \<noteq> NULL" "\<not> GPU_RUNTIME_CPU b" "classifiable x p"
    and "device_ready w (chpl_task_getRequestedSubloc x)"
  shows "(n = chpl_gpu_get_alloc_size x p \<longrightarrow>
            chpl_gpu_mem_realloc b x p n w =
              (Inr p, switched w (chpl_task_getRequestedSubloc x)))
       \<and> (n \<noteq> chpl_gpu_get_alloc_size x p \<and> 0 < n
            \<and> (NDEBUG b \<or> chpl_gpu_is_device_ptr x (Suc (next_addr w))) \<longrightarrow>
            chpl_gpu_mem_realloc b x p n w =
              (Inr (Suc (next_addr w)),
               (switched w (chpl_task_getRequestedSubloc x))\<lparr>
                 next_addr := Suc (next_addr w),
                 trace := trace w
                   @ switch_events w (device_ctx w (chpl_task_getRequestedSubloc x))
                   @ [E_memhook_malloc_pre 1 n, alloc_event b n (Suc (next_addr w)),
                      E_memhook_malloc_post (Suc (next_addr w)) 1 n,
                      E_cuMemcpyDtoD (Suc (next_addr w)) p (min n (chpl_gpu_get_alloc_size x p)),
                      E_memhook_free_pre p, free_event b x p]\<rparr>))
       \<and> (n \<noteq> chpl_gpu_get_alloc_size x p \<and> n = 0
            \<and> (NDEBUG b \<or> chpl_gpu_is_device_ptr x NULL) \<longrightarrow>
            chpl_gpu_mem_realloc b x p n w =
              (Inr NULL,
               (switched w (chpl_task_getRequestedSubloc x))\<lparr>
                 trace := trace w
                   @ switch_events w (device_ctx w (chpl_task_getRequestedSubloc x))
                   @ [E_cuMemcpyDtoD NULL p 0, E_memhook_free_pre p, free_event b x p]\<rparr>))"
  using assms realloc_same_size [of b x p w n] realloc_positive [of b x p w n]
    realloc_zero [of b x p w]
  by auto

lemma chpl_gpu_mem_realloc_contract_example:
  "chpl_gpu_is_device_ptr demo_extern 7 \<and> (7 :: nat) \<noteq> NULL \<and> \<not> GPU_RUNTIME_CPU demo_build
   \<and> classifiable demo_extern 7
   \<and> device_ready demo_world (chpl_task_getRequestedSubloc demo_extern)
   \<and> 128 \<noteq> chpl_gpu_get_alloc_size demo_extern 7
   \<and> chpl_gpu_is_device_ptr demo_extern (Suc (next_addr demo_world))
   \<and> chpl_gpu_mem_realloc demo_build demo_extern 7 128 demo_world =
       (Inr 101, demo_world\<lparr>
          next_addr := 101,
          trace := [E_memhook_malloc_pre 1 128, E_cuMemAllocHost 128 101,
                    E_memhook_malloc_post 101 1 128, E_cuMemcpyDtoD 101 7 64,
                    E_memhook_free_pre 7, E_cuMemFree 7]\<rparr>)"
proof -
  have h: "chpl_gpu_is_device_ptr demo_extern 7" "(7 :: nat) \<noteq> NULL"
    "\<not> GPU_RUNTIME_CPU demo_build" "classifiable demo_extern 7"
    "device_ready demo_world (chpl_task_getRequestedSubloc demo_extern)"
    "128 \<noteq> chpl_gpu_get_alloc_size demo_extern 7"
    "chpl_gpu_is_device_ptr demo_extern (Suc (next_addr demo_world))"
    using demo_ready by (simp_all add: demo_extern_facts)
  from chpl_gpu_mem_realloc_contract [OF h(1-5), of 128] h(6,7)
  have "chpl_gpu_mem_realloc demo_build demo_extern 7 128 demo_world =
      (Inr (Suc (next_addr demo_world)),
       (switched demo_world (chpl_task_getRequestedSubloc demo_extern))\<lparr>
         next_addr := Suc (next_addr demo_world),
         trace := trace demo_world
           @ switch_events demo_world (device_ctx demo_world (chpl_task_getRequestedSubloc demo_extern))
           @ [E_memhook_malloc_pre 1 128, alloc_event demo_build 128 (Suc (next_addr demo_world)),
              E_memhook_malloc_post (Suc (next_addr demo_world)) 1 128,
              E_cuMemcpyDtoD (Suc (next_addr demo_world)) 7
                (min 128 (chpl_gpu_get_alloc_size demo_extern 7)),
              E_memhook_free_pre 7, free_event demo_build demo_extern 7]\<rparr>)"
    by simp
  then have "chpl_gpu_mem_realloc demo_build demo_extern 7 128 demo_world =
       (Inr 101, demo_world\<lparr>
          next_addr := 101,
          trace := [E_memhook_malloc_pre 1 128, E_cuMemAllocHost 128 101,
                    E_memhook_malloc_post 101 1 128, E_cuMemcpyDtoD 101 7 64,
                    E_memhook_free_pre 7, E_cuMemFree 7]\<rparr>)"
    by (simp add: demo_extern_facts demo_on_device_0 demo_switch_1 alloc_event_def free_event_def)
  with h show ?thesis by simp
qed

text \<open>Claim C7 at \<open>realloc(7, 0)\<close> of a 64-byte device buffer, in the debug build with
  collaborators for which \<open>NULL\<close> is no device pointer: the new size differs from the
  current one, the new allocation is \<open>NULL\<close>, and the call aborts at the assertion of
  \<^verbatim>\<open>chpl_gpu_impl_copy_device_to_device\<close>. No copy is made, the old buffer is not
  freed and no pointer is returned.\<close>

theorem realloc_to_zero_aborts_in_debug_build:
  "chpl_gpu_is_device_ptr demo_extern 7
   \<and> \<not> GPU_RUNTIME_CPU demo_build
   \<and> 0 \<noteq> chpl_gpu_get_alloc_size demo_extern 7
   \<and> chpl_gpu_mem_realloc demo_build demo_extern 7 0 demo_world =
       (Inl (Assert_failure ''chpl_gpu_is_device_ptr(dst) && chpl_gpu_is_device_ptr(src)''),
        demo_world)"
  using realloc_zero_aborts [of demo_build demo_extern 7 demo_world] demo_ready
  by (simp add: demo_extern_facts demo_on_device_0)


text \<open>Reallocation to size 0 where the assertion holds. For a non-null device pointer \<open>p\<close> with a non-zero current
  size, outside CPU emulation, when assertions are compiled out or the backend takes
  \<open>NULL\<close> for a device pointer: \<open>realloc(p, 0)\<close> takes the path for a different size;
  the request for 0 bytes yields the null allocation without any call to the backend,
  a zero-byte device-to-device copy with destination \<open>NULL\<close> is issued, the old buffer
  is freed, and \<open>NULL\<close> is returned.\<close>

lemma chpl_gpu_mem_realloc_zero:
  assumes "chpl_gpu_is_device_ptr x p" "p \<noteq> NULL" "\<not> GPU_RUNTIME_CPU b" "classifiable x p"
    and "device_ready w (chpl_task_getRequestedSubloc x)"
    and "chpl_gpu_get_alloc_size x p \<noteq> 0"
    and "NDEBUG b \<or> chpl_gpu_is_device_ptr x NULL"
  shows "chpl_gpu_mem_alloc b x 0 (switched w (chpl_task_getRequestedSubloc x)) =
           (Inr NULL, switched w (chpl_task_getRequestedSubloc x))
       \<and> chpl_gpu_mem_realloc b x p 0 w =
           (Inr NULL,
            (switched w (chpl_task_getRequestedSubloc x))\<lparr>
              trace := trace w
                @ switch_events w (device_ctx w (chpl_task_getRequestedSubloc x))
                @ [E_cuMemcpyDtoD NULL p 0, E_memhook_free_pre p, free_event b x p]\<rparr>)"
  using assms realloc_zero [of b x p w] mem_alloc_zero by auto

lemma chpl_gpu_mem_realloc_zero_example:
  "chpl_gpu_is_device_ptr demo_extern 7 \<and> (7 :: nat) \<noteq> NULL
   \<and> \<not> GPU_RUNTIME_CPU (demo_build\<lparr>NDEBUG := True\<rparr>)
   \<and> classifiable demo_extern 7
   \<and> device_ready demo_world (chpl_task_getRequestedSubloc demo_extern)
   \<and> chpl_gpu_get_alloc_size demo_extern 7 \<noteq> 0
   \<and> NDEBUG (demo_build\<lparr>NDEBUG := True\<rparr>)
   \<and> chpl_gpu_mem_realloc (demo_build\<lparr>NDEBUG := True\<rparr>) demo_extern 7 0 demo_world =
       (Inr NULL, demo_world\<lparr>
          trace := [E_cuMemcpyDtoD NULL 7 0, E_memhook_free_pre 7, E_cuMemFree 7]\<rparr>)"
proof -
  have h: "chpl_gpu_is_device_ptr demo_extern 7" "(7 :: nat) \<noteq> NULL"
    "\<not> GPU_RUNTIME_CPU (demo_build\<lparr>NDEBUG := True\<rparr>)" "classifiable demo_extern 7"
    "device_ready demo_world (chpl_task_getRequestedSubloc demo_extern)"
    "chpl_gpu_get_alloc_size demo_extern 7 \<noteq> 0"
    "NDEBUG (demo_build\<lparr>NDEBUG := True\<rparr>) \<or> chpl_gpu_is_device_ptr demo_extern NULL"
    using demo_ready by (simp_all add: demo_extern_facts)
  from chpl_gpu_mem_realloc_zero [OF h]
  have "chpl_gpu_mem_realloc (demo_build\<lparr>NDEBUG := True\<rparr>) demo_extern 7 0 demo_world =
       (Inr NULL, demo_world\<lparr>
          trace := [E_cuMemcpyDtoD NULL 7 0, E_memhook_free_pre 7, E_cuMemFree 7]\<rparr>)"
    by (simp add: demo_extern_facts demo_on_device_0 demo_switch_1 free_event_def)
  with h(1-6) show ?thesis by simp
qed

text \<open>Claim C10 at \<open>realloc(7, 0)\<close> of a 64-byte device buffer, in a debug build for
  the Unified strategy with collaborators for which \<open>NULL\<close> is no device pointer and a
  task on device 1: the call switches to device 1 and then aborts at the assertion of
  \<^verbatim>\<open>chpl_gpu_impl_copy_device_to_device\<close>. No copy is issued, the old buffer is not
  freed and \<open>NULL\<close> is not returned.\<close>

theorem realloc_zero_aborts_under_unified_debug_build:
  "chpl_gpu_is_device_ptr (demo_extern\<lparr>chpl_task_getRequestedSubloc := 1\<rparr>) 7
   \<and> \<not> GPU_RUNTIME_CPU (demo_build\<lparr>CHPL_GPU_MEM_STRATEGY_ARRAY_ON_DEVICE := False\<rparr>)
   \<and> chpl_gpu_get_alloc_size (demo_extern\<lparr>chpl_task_getRequestedSubloc := 1\<rparr>) 7 = 64
   \<and> chpl_gpu_mem_realloc (demo_build\<lparr>CHPL_GPU_MEM_STRATEGY_ARRAY_ON_DEVICE := False\<rparr>)
         (demo_extern\<lparr>chpl_task_getRequestedSubloc := 1\<rparr>) 7 0 demo_world =
       (Inl (Assert_failure ''chpl_gpu_is_device_ptr(dst) && chpl_gpu_is_device_ptr(src)''),
        demo_world\<lparr>trace := [E_cuCtxPopCurrent 11, E_cuCtxPushCurrent 22], ctx_stack := [22]\<rparr>)"
proof -
  have h: "\<not> NDEBUG (demo_build\<lparr>CHPL_GPU_MEM_STRATEGY_ARRAY_ON_DEVICE := False\<rparr>)"
    "chpl_gpu_is_device_ptr (demo_extern\<lparr>chpl_task_getRequestedSubloc := 1\<rparr>) 7"
    "\<not> chpl_gpu_is_device_ptr (demo_extern\<lparr>chpl_task_getRequestedSubloc := 1\<rparr>) NULL"
    "\<not> GPU_RUNTIME_CPU (demo_build\<lparr>CHPL_GPU_MEM_STRATEGY_ARRAY_ON_DEVICE := False\<rparr>)"
    "device_ready demo_world (chpl_task_getRequestedSubloc (demo_extern\<lparr>chpl_task_getRequestedSubloc := 1\<rparr>))"
    "chpl_gpu_get_alloc_size (demo_extern\<lparr>chpl_task_getRequestedSubloc := 1\<rparr>) 7 \<noteq> 0"
    "chpl_gpu_get_alloc_size (demo_extern\<lparr>chpl_task_getRequestedSubloc := 1\<rparr>) 7 = 64"
    using demo_ready
    by (simp_all add: demo_extern_def demo_build_def chpl_gpu_is_device_ptr_def
        chpl_gpu_impl_is_device_ptr_def chpl_gpu_get_alloc_size_def
        chpl_gpu_impl_get_alloc_size_def)
  from realloc_zero_aborts [OF h(1-6)] h show ?thesis
    by (simp add: demo_switch_1)
qed

lemma calloc_result:
  assumes "0 < n" "device_ready w (chpl_task_getRequestedSubloc x)"
    and "NDEBUG b \<or> chpl_gpu_is_device_ptr x (Suc (Suc (next_addr w)))"
  shows "chpl_gpu_mem_calloc b x number n w =
     (Inr (Suc (Suc (next_addr w))),
      (switched w (chpl_task_getRequestedSubloc x))\<lparr>
        next_addr := Suc (Suc (next_addr w)),
        trace := trace w @ E_chpl_mem_calloc number n (Suc (next_addr w))
          # switch_events w (device_ctx w (chpl_task_getRequestedSubloc x))
          @ [E_memhook_malloc_pre 1 ((number * n) mod 2 ^ 64),
             alloc_event b ((number * n) mod 2 ^ 64) (Suc (Suc (next_addr w))),
             E_memhook_malloc_post (Suc (Suc (next_addr w))) 1 ((number * n) mod 2 ^ 64),
             E_cuMemcpyHtoD (Suc (Suc (next_addr w))) (Suc (next_addr w)) ((number * n) mod 2 ^ 64),
             E_chpl_mem_free (Suc (next_addr w))]\<rparr>)"
  using assms
  by (auto simp: chpl_gpu_mem_calloc_def chpl_mem_calloc_def chpl_mem_free_def
      chpl_gpu_impl_copy_host_to_device_def mem_defs Let_def use_device_ready switched_frame)

lemma zero_size_requests:
  "chpl_gpu_mem_alloc b x 0 w = (Inr NULL, w)"
  "chpl_gpu_mem_calloc b x number 0 w = (Inr NULL, w)"
  "device_ready w (chpl_task_getRequestedSubloc x) \<Longrightarrow>
     chpl_gpu_mem_array_alloc b x 0 w = (Inr NULL, switched w (chpl_task_getRequestedSubloc x))"
  by (simp_all add: chpl_gpu_mem_alloc_def chpl_gpu_mem_calloc_def chpl_gpu_mem_array_alloc_def
      ret_def bnd_def use_device_ready)

text \<open>Claim C6 at \<open>calloc(0, 8)\<close>: the total size is 0, yet the host buffer is
  allocated, the hooks run, the backend allocator is called for 0 bytes and a non-null
  pointer is returned.\<close>

theorem calloc_zero_count_reaches_backend:
  "chpl_gpu_mem_calloc demo_build demo_extern 0 8 demo_world =
     (Inr 102, demo_world\<lparr>
        next_addr := 102,
        trace := [E_chpl_mem_calloc 0 8 101, E_memhook_malloc_pre 1 0, E_cuMemAllocHost 0 102,
                  E_memhook_malloc_post 102 1 0, E_cuMemcpyHtoD 102 101 0,
                  E_chpl_mem_free 101]\<rparr>)"
  using calloc_result [of 8 demo_world demo_extern demo_build 0] demo_ready
  by (simp add: demo_extern_facts demo_on_device_0 demo_switch_1 alloc_event_def)

subsection \<open>Initialisation\<close>

lemma init_device_result:
  assumes "globals_ok b x i"
  shows "fst (init_device b x i u w) = Inr ()
       \<and> chpl_gpu_num_devices (snd (init_device b x i u w)) = chpl_gpu_num_devices w"
  using assms
  by (auto simp: init_device_def chpl_gpu_impl_set_globals_def
      chpl_gpu_impl_copy_host_to_device_def cuCtxSetCurrent_def globals_ok_def c_assert_def
      bnd_def ret_def emit_def Let_def split: prod.splits)

lemma init_loop_result:
  assumes "\<forall>i \<in> set is. globals_ok b x i"
  shows "fst (for_loop is (init_device b x) () w) = Inr ()
       \<and> chpl_gpu_num_devices (snd (for_loop is (init_device b x) () w)) = chpl_gpu_num_devices w"
  using assms
proof (induction "is" arbitrary: w)
  case Nil
  then show ?case by (simp add: ret_def)
next
  case (Cons i "is")
  obtain w1 where step: "init_device b x i () w = (Inr (), w1)"
    and num: "chpl_gpu_num_devices w1 = chpl_gpu_num_devices w"
    using init_device_result [of b x i "()" w] Cons.prems
    by (cases "init_device b x i () w") auto
  from Cons.IH [of w1] Cons.prems step num show ?case
    by (simp add: bnd_def)
qed

lemma impl_init_result:
  assumes "0 \<le> cuDeviceGetCount x" "\<forall>i < nat (cuDeviceGetCount x). globals_ok b x i"
    and "- 1 \<le> chpl_gpu_num_devices w"
  shows "fst (chpl_gpu_impl_init b x w) = Inr ()
       \<and> chpl_gpu_num_devices (snd (chpl_gpu_impl_init b x w)) =
           (if chpl_gpu_num_devices w = - 1 then cuDeviceGetCount x
            else min (chpl_gpu_num_devices w) (cuDeviceGetCount x))"
proof -
  have loop: "fst (for_loop [0..<k] (init_device b x) () w0) = Inr ()
       \<and> chpl_gpu_num_devices (snd (for_loop [0..<k] (init_device b x) () w0)) =
           chpl_gpu_num_devices w0"
    if "k \<le> nat (cuDeviceGetCount x)" for k w0
    using that assms(2) by (intro init_loop_result) auto
  have assert: "NDEBUG b \<or> cuDeviceGetCount x \<noteq> - 1"
    using assms(1) by simp
  show ?thesis
    using assert assms(1,3)
    by (simp add: chpl_gpu_impl_init_def cuInit_def chpl_malloc_def fresh_def emit_def c_assert_def
        bnd_def ret_def Let_def loop min_def)
qed

lemma init_unset:
  assumes "chpl_env_rt_get x ''NUM_GPUS_PER_LOCALE'' = None"
    and "0 \<le> cuDeviceGetCount x" "\<forall>i < nat (cuDeviceGetCount x). globals_ok b x i"
  shows "fst (chpl_gpu_init b x w) = Inr ()
       \<and> chpl_gpu_num_devices (snd (chpl_gpu_init b x w)) = cuDeviceGetCount x"
proof -
  have "fst (chpl_gpu_impl_init b x (w\<lparr>chpl_gpu_num_devices := - 1\<rparr>)) = Inr ()
       \<and> chpl_gpu_num_devices (snd (chpl_gpu_impl_init b x (w\<lparr>chpl_gpu_num_devices := - 1\<rparr>))) =
           cuDeviceGetCount x"
    using impl_init_result [OF assms(2,3), of "w\<lparr>chpl_gpu_num_devices := - 1\<rparr>"] by simp
  then show ?thesis
    using assms(1,2)
    by (cases "chpl_gpu_impl_init b x (w\<lparr>chpl_gpu_num_devices := - 1\<rparr>)")
       (auto simp: chpl_gpu_init_def bnd_def ret_def c_assert_def)
qed

lemma init_unparsable:
  assumes "chpl_env_rt_get x ''NUM_GPUS_PER_LOCALE'' = Some s" "sscanf_SCNi32 x s = None"
  shows "chpl_gpu_init b x w =
     (Inl (Chpl_error ''Cannot parse CHPL_RT_NUM_GPUS_PER_LOCALE environment variable''),
      w\<lparr>chpl_gpu_num_devices := - 1\<rparr>)"
  using assms by (simp add: chpl_gpu_init_def bnd_def ret_def chpl_error_def abort_def)

lemma init_negative:
  assumes "chpl_env_rt_get x ''NUM_GPUS_PER_LOCALE'' = Some s" "sscanf_SCNi32 x s = Some v" "v < 0"
  shows "chpl_gpu_init b x w =
     (Inl (Chpl_error ''CHPL_RT_NUM_GPUS_PER_LOCALE must be >= 0''),
      w\<lparr>chpl_gpu_num_devices := v\<rparr>)"
  using assms by (simp add: chpl_gpu_init_def bnd_def ret_def chpl_error_def abort_def)

lemma init_count:
  assumes "chpl_env_rt_get x ''NUM_GPUS_PER_LOCALE'' = Some s" "sscanf_SCNi32 x s = Some v" "0 \<le> v"
    and "0 \<le> cuDeviceGetCount x" "\<forall>i < nat (cuDeviceGetCount x). globals_ok b x i"
  shows "fst (chpl_gpu_init b x w) = Inr ()
       \<and> chpl_gpu_num_devices (snd (chpl_gpu_init b x w)) = min v (cuDeviceGetCount x)"
proof -
  have "fst (chpl_gpu_impl_init b x (w\<lparr>chpl_gpu_num_devices := v\<rparr>)) = Inr ()
       \<and> chpl_gpu_num_devices (snd (chpl_gpu_impl_init b x (w\<lparr>chpl_gpu_num_devices := v\<rparr>))) =
           min v (cuDeviceGetCount x)"
    using impl_init_result [OF assms(4,5), of "w\<lparr>chpl_gpu_num_devices := v\<rparr>"] assms(3) by simp
  then show ?thesis
    using assms(1-4)
    by (cases "chpl_gpu_impl_init b x (w\<lparr>chpl_gpu_num_devices := v\<rparr>)")
       (auto simp: chpl_gpu_init_def bnd_def ret_def c_assert_def)
qed

text \<open>Claim C8, amended. With a driver that detects \<open>cuDeviceGetCount x \<ge> 0\<close> devices and
  modules whose globals pass the assertions: when the setting is absent, initialisation
  returns and all detected devices are used; when it parses to a non-negative \<open>v\<close>,
  initialisation returns and \<open>min v\<close> (detected) devices are used; when it does not
  parse, and also when it parses to a negative value, initialisation ends in a fatal
  configuration error.\<close>

theorem chpl_gpu_init_device_count:
  assumes "0 \<le> cuDeviceGetCount x" "\<forall>i < nat (cuDeviceGetCount x). globals_ok b x i"
  shows "(chpl_env_rt_get x ''NUM_GPUS_PER_LOCALE'' = None \<longrightarrow>
            fst (chpl_gpu_init b x w) = Inr ()
            \<and> chpl_gpu_num_devices (snd (chpl_gpu_init b x w)) = cuDeviceGetCount x)
       \<and> (\<forall>s v. chpl_env_rt_get x ''NUM_GPUS_PER_LOCALE'' = Some s
              \<and> sscanf_SCNi32 x s = Some v \<and> 0 \<le> v \<longrightarrow>
            fst (chpl_gpu_init b x w) = Inr ()
            \<and> chpl_gpu_num_devices (snd (chpl_gpu_init b x w)) = min v (cuDeviceGetCount x))
       \<and> (\<forall>s. chpl_env_rt_get x ''NUM_GPUS_PER_LOCALE'' = Some s
              \<and> sscanf_SCNi32 x s = None \<longrightarrow>
            fst (chpl_gpu_init b x w) =
              Inl (Chpl_error ''Cannot parse CHPL_RT_NUM_GPUS_PER_LOCALE environment variable''))
       \<and> (\<forall>s v. chpl_env_rt_get x ''NUM_GPUS_PER_LOCALE'' = Some s
              \<and> sscanf_SCNi32 x s = Some v \<and> v < 0 \<longrightarrow>
            fst (chpl_gpu_init b x w) =
              Inl (Chpl_error ''CHPL_RT_NUM_GPUS_PER_LOCALE must be >= 0''))"
proof (intro conjI allI impI)
  assume "chpl_env_rt_get x ''NUM_GPUS_PER_LOCALE'' = None"
  then show "fst (chpl_gpu_init b x w) = Inr ()"
    and "chpl_gpu_num_devices (snd (chpl_gpu_init b x w)) = cuDeviceGetCount x"
    using init_unset [OF _ assms, of w] by simp_all
next
  fix s v
  assume "chpl_env_rt_get x ''NUM_GPUS_PER_LOCALE'' = Some s
      \<and> sscanf_SCNi32 x s = Some v \<and> 0 \<le> v"
  then show "fst (chpl_gpu_init b x w) = Inr ()"
    and "chpl_gpu_num_devices (snd (chpl_gpu_init b x w)) = min v (cuDeviceGetCount x)"
    using init_count [OF _ _ _ assms, of s v w] by simp_all
next
  fix s
  assume "chpl_env_rt_get x ''NUM_GPUS_PER_LOCALE'' = Some s \<and> sscanf_SCNi32 x s = None"
  then show "fst (chpl_gpu_init b x w) =
      Inl (Chpl_error ''Cannot parse CHPL_RT_NUM_GPUS_PER_LOCALE environment variable'')"
    by (simp add: init_unparsable)
next
  fix s v
  assume "chpl_env_rt_get x ''NUM_GPUS_PER_LOCALE'' = Some s
      \<and> sscanf_SCNi32 x s = Some v \<and> v < 0"
  then show "fst (chpl_gpu_init b x w) =
      Inl (Chpl_error ''CHPL_RT_NUM_GPUS_PER_LOCALE must be >= 0'')"
    by (simp add: init_negative)
qed

lemma with_env_facts:
  "chpl_env_rt_get (with_env v n) ''NUM_GPUS_PER_LOCALE'' = Some v"
  "sscanf_SCNi32 (with_env v n) v = n"
  "cuDeviceGetCount (with_env v n) = 2"
  "globals_ok demo_build (with_env v n) i"
  by (simp_all add: with_env_def demo_extern_def globals_ok_def sizeof_c_nodeid_t_def
      chpl_gpu_is_device_ptr_def chpl_gpu_impl_is_device_ptr_def)

theorem chpl_gpu_init_device_count_witness:
  "(0 :: int) \<le> cuDeviceGetCount (with_env ''1'' (Some 1))
   \<and> chpl_env_rt_get (with_env ''1'' (Some 1)) ''NUM_GPUS_PER_LOCALE'' = Some ''1''
   \<and> sscanf_SCNi32 (with_env ''1'' (Some 1)) ''1'' = Some 1
   \<and> fst (chpl_gpu_init demo_build (with_env ''1'' (Some 1)) boot_world) = Inr ()
   \<and> chpl_gpu_num_devices (snd (chpl_gpu_init demo_build (with_env ''1'' (Some 1)) boot_world)) = 1"
proof -
  have h: "0 \<le> cuDeviceGetCount (with_env ''1'' (Some 1))"
    "\<forall>i < nat (cuDeviceGetCount (with_env ''1'' (Some 1))).
       globals_ok demo_build (with_env ''1'' (Some 1)) i"
    by (simp_all add: with_env_facts)
  have e: "chpl_env_rt_get (with_env ''1'' (Some 1)) ''NUM_GPUS_PER_LOCALE'' = Some ''1''
      \<and> sscanf_SCNi32 (with_env ''1'' (Some 1)) ''1'' = Some 1 \<and> (0 :: int) \<le> 1"
    by (simp add: with_env_facts)
  from chpl_gpu_init_device_count [OF h, of boot_world] e
  have "fst (chpl_gpu_init demo_build (with_env ''1'' (Some 1)) boot_world) = Inr ()
      \<and> chpl_gpu_num_devices (snd (chpl_gpu_init demo_build (with_env ''1'' (Some 1)) boot_world))
          = min 1 (cuDeviceGetCount (with_env ''1'' (Some 1)))"
    by blast
  with h(1) e show ?thesis by (simp add: with_env_facts)
qed

text \<open>With the setting \<open>-1\<close>, which \<^verbatim>\<open>sscanf\<close> reads as the integer \<open>-1\<close>, and two devices
  detected, initialisation does not use the two devices: it ends in the fatal error
  \<^verbatim>\<open>CHPL_RT_NUM_GPUS_PER_LOCALE must be >= 0\<close>, although the value is well-formed.\<close>

theorem chpl_gpu_init_negative_counterexample:
  "chpl_env_rt_get (with_env ''-1'' (Some (- 1))) ''NUM_GPUS_PER_LOCALE'' = Some ''-1''
   \<and> sscanf_SCNi32 (with_env ''-1'' (Some (- 1))) ''-1'' = Some (- 1)
   \<and> cuDeviceGetCount (with_env ''-1'' (Some (- 1))) = 2
   \<and> chpl_gpu_init demo_build (with_env ''-1'' (Some (- 1))) boot_world =
       (Inl (Chpl_error ''CHPL_RT_NUM_GPUS_PER_LOCALE must be >= 0''), boot_world)"
  using init_negative [of "with_env ''-1'' (Some (- 1))" "''-1''" "- 1" demo_build boot_world]
  by (simp add: with_env_facts) (simp add: boot_world_def)

subsection \<open>Kernel launch\<close>

lemma for_loop_map: "for_loop (map g is) body s = for_loop is (\<lambda>i. body (g i)) s"
  by (induction "is" arbitrary: s) (simp_all add: bnd_def fun_eq_iff split: prod.splits sum.splits)

lemma for_loop_cong:
  "(\<And>i s. i \<in> set is \<Longrightarrow> f i s = g i s) \<Longrightarrow> for_loop is f s = for_loop is g s"
  by (induction "is" arbitrary: s) (simp_all add: bnd_def fun_eq_iff split: prod.splits sum.splits)

lemma for_loop_nth:
  "for_loop [0..<length xs] (\<lambda>i. body (xs ! i)) s = for_loop xs body s"
  using for_loop_map [of "nth xs" "[0..<length xs]" body s] by (simp add: map_nth)

lemma staged_lengths [simp]:
  "length (staged_params a args) = length args"
  by (induction a args rule: staged_params.induct) simp_all

lemma staged_buffers_simps [simp]:
  "staged_buffers a [] = []"
  "staged_buffers a ((p, n) # args) =
     (if 0 < n then Suc (Suc a) # staged_buffers (Suc (Suc a)) args else staged_buffers a args)"
  by (simp_all add: staged_buffers_def)

lemma staged_buffers_above: "q \<in> set (staged_buffers a args) \<Longrightarrow> a < q"
  by (induction a args arbitrary: q rule: staged_copies.induct)
     (fastforce split: if_splits)+

lemma staged_buffers_distinct: "distinct (staged_buffers a args)"
  by (induction a args rule: staged_copies.induct)
     (auto dest: staged_buffers_above)

lemma staged_buffers_length: "length (staged_buffers a args) = length (by_value args)"
  by (induction a args rule: staged_copies.induct) (simp_all add: by_value_def)

lemma staged_copies_args: "map snd (staged_copies a args) = by_value args"
  by (induction a args rule: staged_copies.induct) (simp_all add: by_value_def)

lemma prepare_loop:
  assumes "on_device w (chpl_task_getRequestedSubloc x)"
    and "NDEBUG b \<or> (\<forall>q \<in> set (staged_buffers (next_addr w) args). chpl_gpu_is_device_ptr x q)"
  shows "for_loop args (prepare_kernel_param b x) (kp, wa) w =
     (Inr (kp @ staged_params (next_addr w) args, wa @ map (\<lambda>(p, n). 0 < n) args),
      w\<lparr>next_addr := next_addr w + 2 * length (by_value args),
        trace := trace w @ staging_events b (next_addr w) args\<rparr>)"
  using assms
proof (induction args arbitrary: kp wa w)
  case Nil
  then show ?case by (simp add: ret_def by_value_def)
next
  case (Cons arg args)
  obtain p n where arg: "arg = (p, n)" by (cases arg)
  show ?case
  proof (cases "0 < n")
    case False
    with Cons.prems arg have step: "prepare_kernel_param b x arg (kp, wa) w =
        (Inr (kp @ [(p, None)], wa @ [False]), w)"
      by (simp add: prepare_kernel_param_def ret_def)
    from Cons.IH [of w "kp @ [(p, None)]" "wa @ [False]"] Cons.prems arg False step
    show ?thesis by (simp add: bnd_def by_value_def)
  next
    case True
    define w1 where "w1 = w\<lparr>next_addr := Suc (Suc (next_addr w)),
        trace := trace w @ [E_chpl_malloc 8 (Suc (next_addr w)), E_memhook_malloc_pre 1 n,
          alloc_event b n (Suc (Suc (next_addr w))),
          E_memhook_malloc_post (Suc (Suc (next_addr w))) 1 n,
          E_cuMemcpyHtoD (Suc (Suc (next_addr w))) p n]\<rparr>"
    from Cons.prems True arg have dev: "NDEBUG b \<or> chpl_gpu_is_device_ptr x (Suc (Suc (next_addr w)))"
      by auto
    from Cons.prems(1) True dev have step: "prepare_kernel_param b x arg (kp, wa) w =
        (Inr (kp @ [(Suc (next_addr w), Some (Suc (Suc (next_addr w))))], wa @ [True]), w1)"
      unfolding arg w1_def
      by (auto simp: prepare_kernel_param_def chpl_malloc_result bnd_def ret_def mem_alloc_on
          chpl_gpu_impl_copy_host_to_device_def c_assert_def emit_def after_malloc_def)
    have on1: "on_device w1 (chpl_task_getRequestedSubloc x)"
      using Cons.prems(1) by (simp add: w1_def)
    have a1: "next_addr w1 = Suc (Suc (next_addr w))"
      by (simp add: w1_def)
    have rest: "NDEBUG b \<or> (\<forall>q \<in> set (staged_buffers (next_addr w1) args). chpl_gpu_is_device_ptr x q)"
      using Cons.prems(2) True arg by (auto simp: a1)
    from Cons.IH [OF on1 rest, of "kp @ [(Suc (next_addr w), Some (Suc (Suc (next_addr w))))]"
        "wa @ [True]"] step True arg
    show ?thesis
      by (simp add: bnd_def a1 by_value_def) (simp add: w1_def)
  qed
qed


lemma free_loop_zip:
  assumes "length kp = length wa"
  shows "for_loop [0..<length kp] (free_kernel_param b x kp wa) () w =
     for_loop (zip kp wa)
       (\<lambda>(param, was) u. if was then (case snd param of
                                        Some dev \<Rightarrow> chpl_gpu_mem_free b x dev
                                      | None \<Rightarrow> abort (Out_of_bounds ''*kernel_params[i]''))
                         else ret ()) () w"
proof -
  have len: "length (zip kp wa) = length kp"
    using assms by simp
  have "for_loop [0..<length kp] (free_kernel_param b x kp wa) () w =
      for_loop [0..<length kp]
        (\<lambda>i. (\<lambda>(param, was) u. if was then (case snd param of
                                        Some dev \<Rightarrow> chpl_gpu_mem_free b x dev
                                      | None \<Rightarrow> abort (Out_of_bounds ''*kernel_params[i]''))
                         else ret ()) (zip kp wa ! i)) () w"
    by (rule for_loop_cong [THEN fun_cong]) (use assms in \<open>simp add: free_kernel_param_def\<close>)
  also have "\<dots> = for_loop (zip kp wa)
       (\<lambda>(param, was) u. if was then (case snd param of
                                        Some dev \<Rightarrow> chpl_gpu_mem_free b x dev
                                      | None \<Rightarrow> abort (Out_of_bounds ''*kernel_params[i]''))
                         else ret ()) () w"
    using for_loop_nth [of "zip kp wa" _ "()"] unfolding len by (rule fun_cong)
  finally show ?thesis .
qed

lemma free_loop_staged:
  assumes "on_device w (chpl_task_getRequestedSubloc x)"
    and "\<forall>q \<in> set (staged_buffers a args).
           (NDEBUG b \<or> chpl_gpu_is_device_ptr x q) \<and> classifiable x q"
  shows "for_loop (zip (staged_params a args) (map (\<lambda>(p, n). 0 < n) args))
       (\<lambda>(param, was) u. if was then (case snd param of
                                        Some dev \<Rightarrow> chpl_gpu_mem_free b x dev
                                      | None \<Rightarrow> abort (Out_of_bounds ''*kernel_params[i]''))
                         else ret ()) () w =
     (Inr (), w\<lparr>trace := trace w @ free_events b x (staged_buffers a args)\<rparr>)"
  using assms
proof (induction args arbitrary: a w)
  case Nil
  then show ?case by (simp add: ret_def free_events_def)
next
  case (Cons arg args)
  obtain p n where arg: "arg = (p, n)" by (cases arg)
  show ?case
  proof (cases "0 < n")
    case False
    with Cons.IH [of w a] Cons.prems arg show ?thesis
      by (simp add: bnd_def ret_def)
  next
    case True
    from Cons.prems True arg
    have q: "NDEBUG b \<or> chpl_gpu_is_device_ptr x (Suc (Suc a))" "classifiable x (Suc (Suc a))"
      by auto
    have step: "chpl_gpu_mem_free b x (Suc (Suc a)) w =
        (Inr (), w\<lparr>trace := trace w @ [E_memhook_free_pre (Suc (Suc a)),
                                         free_event b x (Suc (Suc a))]\<rparr>)"
      using Cons.prems(1) q by (intro mem_free_on) simp_all
    have on1: "on_device (w\<lparr>trace := trace w @ [E_memhook_free_pre (Suc (Suc a)),
                                         free_event b x (Suc (Suc a))]\<rparr>)
        (chpl_task_getRequestedSubloc x)"
      using Cons.prems(1) by simp
    from Cons.IH [OF on1, of "Suc (Suc a)"] Cons.prems(2) True arg step
    show ?thesis
      by (simp add: bnd_def free_events_def)
  qed
qed

lemma bnd_use_device:
  "device_ready w d \<Longrightarrow> bnd (chpl_gpu_impl_use_device d) f w = f () (switched w d)"
  by (simp add: bnd_def use_device_ready)

lemma bnd_diags_incr:
  "bnd (chpl_gpu_diags_incr c) f w = f () (w\<lparr>diags := (diags w)(c := Suc (diags w c))\<rparr>)"
  by (simp add: bnd_def chpl_gpu_diags_incr_def)

lemma bnd_read_array:
  "c_index (a w) i = Some v \<Longrightarrow> bnd (read_array a name i) f w = f v w"
  by (simp add: bnd_def read_array_def ret_def)

lemma bnd_malloc: "bnd (chpl_malloc n) f w = f (Suc (next_addr w)) (after_malloc w n)"
  by (simp add: bnd_def chpl_malloc_result)

lemma bnd_assert: "NDEBUG b \<or> c \<Longrightarrow> bnd (c_assert b msg c) f w = f () w"
  by (auto simp: bnd_def c_assert_def ret_def)

lemma bnd_prepare_loop:
  assumes "on_device w (chpl_task_getRequestedSubloc x)"
    and "NDEBUG b \<or> (\<forall>q \<in> set (staged_buffers (next_addr w) args). chpl_gpu_is_device_ptr x q)"
  shows "bnd (for_loop args (prepare_kernel_param b x) ([], [])) f w =
     f (staged_params (next_addr w) args, map (\<lambda>(p, n). 0 < n) args)
       (w\<lparr>next_addr := next_addr w + 2 * length (by_value args),
          trace := trace w @ staging_events b (next_addr w) args\<rparr>)"
  using prepare_loop [OF assms, of "[]" "[]"] by (simp add: bnd_def)

lemma bnd_free_loop:
  assumes "on_device w (chpl_task_getRequestedSubloc x)"
    and "\<forall>q \<in> set (staged_buffers a args).
           (NDEBUG b \<or> chpl_gpu_is_device_ptr x q) \<and> classifiable x q"
  shows "bnd (for_loop [0..<length args]
            (free_kernel_param b x (staged_params a args) (map (\<lambda>(p, n). 0 < n) args)) ()) f w =
     f () (w\<lparr>trace := trace w @ free_events b x (staged_buffers a args)\<rparr>)"
  using free_loop_zip [of "staged_params a args" "map (\<lambda>(p, n). 0 < n) args" b x w]
    free_loop_staged [OF assms]
  by (simp add: bnd_def)

lemma launch_result:
  assumes ready: "device_ready w (chpl_task_getRequestedSubloc x)"
    and modules: "c_index (chpl_gpu_cuda_modules w) (chpl_task_getRequestedSubloc x) = Some m"
    and asserts: "NDEBUG b \<or> (chpl_gpu_load_function x m name \<noteq> NULL \<and>
        (\<forall>q \<in> set (staged_buffers (next_addr w + 2) args). chpl_gpu_is_device_ptr x q))"
    and queries: "\<forall>q \<in> set (staged_buffers (next_addr w + 2) args). classifiable x q"
  shows "chpl_gpu_launch_kernel b x name grd blk args w =
     (Inr (),
      (switched w (chpl_task_getRequestedSubloc x))\<lparr>
        diags := (diags w)(kernel_launch := Suc (diags w kernel_launch)),
        next_addr := next_addr w + 2 + 2 * length (by_value args),
        trace := trace w
          @ switch_events w (device_ctx w (chpl_task_getRequestedSubloc x))
          @ [E_chpl_malloc (length args * 8) (Suc (next_addr w)),
             E_chpl_malloc (length args * 1) (Suc (Suc (next_addr w)))]
          @ staging_events b (next_addr w + 2) args
          @ [E_cuLaunchKernel (chpl_gpu_load_function x m name) grd blk
               (map fst (staged_params (next_addr w + 2) args)),
             E_cudaDeviceSynchronize]
          @ free_events b x (staged_buffers (next_addr w + 2) args)
          @ [E_chpl_free (Suc (next_addr w))]\<rparr>)"
proof -
  have on: "on_device (switched w (chpl_task_getRequestedSubloc x)) (chpl_task_getRequestedSubloc x)"
    using ready by (rule on_device_switched)
  have f: "NDEBUG b \<or> chpl_gpu_load_function x m name \<noteq> NULL"
    using asserts by blast
  have dev: "NDEBUG b \<or>
      (\<forall>q \<in> set (staged_buffers (Suc (Suc (next_addr w))) args). chpl_gpu_is_device_ptr x q)"
    using asserts by auto
  have q: "\<forall>q \<in> set (staged_buffers (Suc (Suc (next_addr w))) args).
      (NDEBUG b \<or> chpl_gpu_is_device_ptr x q) \<and> classifiable x q"
    using asserts queries by auto
  show ?thesis
    using ready modules f
    by (simp add: chpl_gpu_launch_kernel_def chpl_gpu_impl_launch_kernel_def
        chpl_gpu_launch_kernel_help_def Let_def bnd_use_device bnd_diags_incr bnd_read_array
        bnd_malloc bnd_assert bnd_prepare_loop bnd_free_loop bnd_emit chpl_free_def emit_def
        on dev q)
       (simp add: after_malloc_def)
qed


lemma observed_append [simp]:
  "device_allocs (xs @ ys) = device_allocs xs @ device_allocs ys"
  "device_frees (xs @ ys) = device_frees xs @ device_frees ys"
  "host_to_device_copies (xs @ ys) = host_to_device_copies xs @ host_to_device_copies ys"
  "host_frees (xs @ ys) = host_frees xs @ host_frees ys"
  by (simp_all add: device_allocs_def device_frees_def host_to_device_copies_def host_frees_def)

lemma observed_Nil [simp]:
  "device_allocs [] = []" "device_frees [] = []" "host_to_device_copies [] = []"
  "host_frees [] = []"
  by (simp_all add: device_allocs_def device_frees_def host_to_device_copies_def host_frees_def)

lemma observed_Cons [simp]:
  "device_allocs (e # es) = device_alloc_of e @ device_allocs es"
  "device_frees (e # es) = device_free_of e @ device_frees es"
  "host_to_device_copies (e # es) = host_to_device_of e @ host_to_device_copies es"
  "host_frees (e # es) = host_free_of e @ host_frees es"
  by (simp_all add: device_allocs_def device_frees_def host_to_device_copies_def host_frees_def)

lemma observed_alloc_event [simp]:
  "device_alloc_of (alloc_event b n p) = [p]"
  "device_free_of (alloc_event b n p) = []"
  "host_to_device_of (alloc_event b n p) = []"
  "host_free_of (alloc_event b n p) = []"
  by (simp_all add: alloc_event_def)

lemma observed_free_event [simp]:
  "device_alloc_of (free_event b x p) = []"
  "device_free_of (free_event b x p) = [p]"
  "host_to_device_of (free_event b x p) = []"
  "host_free_of (free_event b x p) = []"
  by (simp_all add: free_event_def)

lemma observed_switch_events [simp]:
  "device_allocs (switch_events w c) = []"
  "device_frees (switch_events w c) = []"
  "host_to_device_copies (switch_events w c) = []"
  "host_frees (switch_events w c) = []"
  by (simp_all add: switch_events_def split: ctx_state.splits)

lemma observed_staging_events [simp]:
  "device_allocs (staging_events b a args) = staged_buffers a args"
  "device_frees (staging_events b a args) = []"
  "host_to_device_copies (staging_events b a args) = staged_copies a args"
  "host_frees (staging_events b a args) = []"
  by (induction b a args rule: staging_events.induct) simp_all

lemma observed_free_events [simp]:
  "device_allocs (free_events b x qs) = []"
  "device_frees (free_events b x qs) = qs"
  "host_to_device_copies (free_events b x qs) = []"
  "host_frees (free_events b x qs) = []"
  by (induction qs) (simp_all add: free_events_def)

lemma staged_params_pass_through:
  "i < length args \<Longrightarrow> snd (args ! i) = 0 \<Longrightarrow>
   fst (staged_params a args ! i) = fst (args ! i)"
proof (induction a args arbitrary: i rule: staged_params.induct)
  case (1 a)
  then show ?case by simp
next
  case (2 a p n args)
  then show ?case by (cases i) (auto split: if_splits)
qed

text \<open>Claim C5. A launch with by-value arguments \<open>by_value args\<close> and pass-through
  arguments \<open>pass_through args\<close>, in any order and also with no argument at all, on a
  device that can be switched to, with a module loaded for it and the assertions on
  the kernel function and on the staged buffers holding (or compiled out): the call
  returns. Before the dispatch it obtains exactly one device buffer per by-value
  argument, all distinct, and copies that argument's bytes host-to-device into its
  buffer; it frees nothing before the kernel has completed; after
  \<^verbatim>\<open>cudaDeviceSynchronize\<close> it allocates nothing and frees exactly those buffers, each
  once. The only block it gives back to the host allocator is its own
  \<open>kernel_params\<close> array. Every pointer it frees was handed out during the call, so no
  pass-through pointer that existed before the call is freed, and the kernel receives
  each pass-through pointer unchanged. The kernel-launch counter grows by exactly 1 and no
  other counter changes.\<close>

theorem chpl_gpu_launch_kernel_staging:
  assumes ready: "device_ready w (chpl_task_getRequestedSubloc x)"
    and modules: "c_index (chpl_gpu_cuda_modules w) (chpl_task_getRequestedSubloc x) = Some m"
    and asserts: "NDEBUG b \<or> (chpl_gpu_load_function x m name \<noteq> NULL \<and>
        (\<forall>q \<in> set (staged_buffers (next_addr w + 2) args). chpl_gpu_is_device_ptr x q))"
    and queries: "\<forall>q \<in> set (staged_buffers (next_addr w + 2) args). classifiable x q"
  shows "\<exists>w' before after.
       chpl_gpu_launch_kernel b x name grd blk args w = (Inr (), w')
     \<and> new_events w w' =
         before @ [E_cuLaunchKernel (chpl_gpu_load_function x m name) grd blk
                     (map fst (staged_params (next_addr w + 2) args)),
                   E_cudaDeviceSynchronize] @ after
     \<and> device_allocs before = staged_buffers (next_addr w + 2) args
     \<and> length (staged_buffers (next_addr w + 2) args) = length (by_value args)
     \<and> distinct (staged_buffers (next_addr w + 2) args)
     \<and> host_to_device_copies before = staged_copies (next_addr w + 2) args
     \<and> map snd (staged_copies (next_addr w + 2) args) = by_value args
     \<and> device_frees before = []
     \<and> device_allocs after = []
     \<and> device_frees after = staged_buffers (next_addr w + 2) args
     \<and> host_frees (new_events w w') = [Suc (next_addr w)]
     \<and> (\<forall>(p, n) \<in> set (pass_through args).
           p \<le> next_addr w \<longrightarrow>
             p \<notin> set (device_frees (new_events w w') @ host_frees (new_events w w')))
     \<and> length (staged_params (next_addr w + 2) args) = length args
     \<and> (\<forall>i < length args. snd (args ! i) = 0 \<longrightarrow>
           fst (staged_params (next_addr w + 2) args ! i) = fst (args ! i))
     \<and> diags w' = (diags w)(kernel_launch := Suc (diags w kernel_launch))"
proof -
  let ?d = "chpl_task_getRequestedSubloc x"
  let ?a = "next_addr w + 2"
  define before where "before = switch_events w (device_ctx w ?d)
          @ [E_chpl_malloc (length args * 8) (Suc (next_addr w)),
             E_chpl_malloc (length args * 1) (Suc (Suc (next_addr w)))]
          @ staging_events b ?a args"
  define after where "after = free_events b x (staged_buffers ?a args)
          @ [E_chpl_free (Suc (next_addr w))]"
  define params where "params = map fst (staged_params ?a args)"
  define w' where "w' = (switched w ?d)\<lparr>
        diags := (diags w)(kernel_launch := Suc (diags w kernel_launch)),
        next_addr := next_addr w + 2 + 2 * length (by_value args),
        trace := trace w @ before
          @ [E_cuLaunchKernel (chpl_gpu_load_function x m name) grd blk params,
             E_cudaDeviceSynchronize] @ after\<rparr>"
  have run: "chpl_gpu_launch_kernel b x name grd blk args w = (Inr (), w')"
    unfolding launch_result [OF assms] w'_def before_def after_def params_def by simp
  have new: "new_events w w' =
         before @ [E_cuLaunchKernel (chpl_gpu_load_function x m name) grd blk params,
                   E_cudaDeviceSynchronize] @ after"
    by (simp add: w'_def new_events_def)
  have frees: "device_frees (new_events w w') = staged_buffers ?a args"
    unfolding new by (simp add: before_def after_def)
  have host: "host_frees (new_events w w') = [Suc (next_addr w)]"
    unfolding new by (simp add: before_def after_def)
  have above: "\<forall>q \<in> set (device_frees (new_events w w')). next_addr w < q"
    unfolding frees using staged_buffers_above [of _ ?a args] by fastforce
  have pass: "\<forall>(p, n) \<in> set (pass_through args).
           p \<le> next_addr w \<longrightarrow>
             p \<notin> set (device_frees (new_events w w') @ host_frees (new_events w w'))"
    using above unfolding host by fastforce
  have slots: "\<forall>i < length args. snd (args ! i) = 0 \<longrightarrow>
      fst (staged_params ?a args ! i) = fst (args ! i)"
    by (simp add: staged_params_pass_through)
  have "chpl_gpu_launch_kernel b x name grd blk args w = (Inr (), w')
     \<and> new_events w w' =
         before @ [E_cuLaunchKernel (chpl_gpu_load_function x m name) grd blk
                     (map fst (staged_params ?a args)),
                   E_cudaDeviceSynchronize] @ after
     \<and> device_allocs before = staged_buffers ?a args
     \<and> length (staged_buffers ?a args) = length (by_value args)
     \<and> distinct (staged_buffers ?a args)
     \<and> host_to_device_copies before = staged_copies ?a args
     \<and> map snd (staged_copies ?a args) = by_value args
     \<and> device_frees before = []
     \<and> device_allocs after = []
     \<and> device_frees after = staged_buffers ?a args
     \<and> host_frees (new_events w w') = [Suc (next_addr w)]
     \<and> (\<forall>(p, n) \<in> set (pass_through args).
           p \<le> next_addr w \<longrightarrow>
             p \<notin> set (device_frees (new_events w w') @ host_frees (new_events w w')))
     \<and> length (staged_params ?a args) = length args
     \<and> (\<forall>i < length args. snd (args ! i) = 0 \<longrightarrow>
           fst (staged_params ?a args ! i) = fst (args ! i))
     \<and> diags w' = (diags w)(kernel_launch := Suc (diags w kernel_launch))"
    using run new host pass slots
    by (simp add: before_def after_def staged_buffers_length staged_buffers_distinct
        staged_copies_args params_def w'_def)
  then show ?thesis by blast
qed


lemma demo_launch_facts:
  "chpl_task_getRequestedSubloc demo_extern = 0"
  "next_addr demo_world = 100"
  "c_index (chpl_gpu_cuda_modules demo_world) 0 = Some 5"
  "chpl_gpu_load_function demo_extern 5 ''kernel'' = 905"
  "chpl_gpu_is_device_ptr demo_extern 104"
  "classifiable demo_extern 104"
  "\<not> NDEBUG demo_build"
  "diags demo_world kernel_launch = 0"
  by (simp_all add: demo_extern_def demo_world_def demo_build_def c_index_def classifiable_def
      chpl_gpu_is_device_ptr_def chpl_gpu_impl_is_device_ptr_def)

theorem chpl_gpu_launch_kernel_staging_witness:
  "device_ready demo_world (chpl_task_getRequestedSubloc demo_extern)
   \<and> c_index (chpl_gpu_cuda_modules demo_world) (chpl_task_getRequestedSubloc demo_extern) = Some 5
   \<and> chpl_gpu_load_function demo_extern 5 ''kernel'' \<noteq> NULL
   \<and> staged_buffers (next_addr demo_world + 2) [(7, 0), (50, 4)] = [104]
   \<and> chpl_gpu_is_device_ptr demo_extern 104
   \<and> classifiable demo_extern 104
   \<and> by_value [(7, 0), (50, 4)] = [(50, 4)]
   \<and> pass_through [(7, 0), (50, 4)] = [(7, 0)]
   \<and> (\<exists>w' before after.
        chpl_gpu_launch_kernel demo_build demo_extern ''kernel'' (1, 1, 1) (64, 1, 1)
          [(7, 0), (50, 4)] demo_world = (Inr (), w')
      \<and> new_events demo_world w' =
          before @ [E_cuLaunchKernel 905 (1, 1, 1) (64, 1, 1) [7, 103],
                    E_cudaDeviceSynchronize] @ after
      \<and> device_allocs before = [104]
      \<and> host_to_device_copies before = [(104, 50, 4)]
      \<and> device_frees before = []
      \<and> device_allocs after = []
      \<and> device_frees after = [104]
      \<and> host_frees (new_events demo_world w') = [101]
      \<and> 7 \<notin> set (device_frees (new_events demo_world w') @ host_frees (new_events demo_world w'))
      \<and> diags w' kernel_launch = 1
      \<and> diags w' host_to_device = 0)"
proof -
  let ?args = "[(7, 0), (50, 4)] :: (ptr \<times> nat) list"
  have bufs: "staged_buffers (next_addr demo_world + 2) ?args = [104]"
    and copies: "staged_copies (next_addr demo_world + 2) ?args = [(104, 50, 4)]"
    and params: "map fst (staged_params (next_addr demo_world + 2) ?args) = [7, 103]"
    and split: "by_value ?args = [(50, 4)]" "pass_through ?args = [(7, 0)]"
    by (simp_all add: staged_buffers_def by_value_def pass_through_def demo_launch_facts)
  have ready: "device_ready demo_world (chpl_task_getRequestedSubloc demo_extern)"
    by (simp add: demo_launch_facts demo_ready)
  have modules: "c_index (chpl_gpu_cuda_modules demo_world)
      (chpl_task_getRequestedSubloc demo_extern) = Some 5"
    by (simp add: demo_launch_facts)
  have asserts: "NDEBUG demo_build \<or> (chpl_gpu_load_function demo_extern 5 ''kernel'' \<noteq> NULL \<and>
        (\<forall>q \<in> set (staged_buffers (next_addr demo_world + 2) ?args).
            chpl_gpu_is_device_ptr demo_extern q))"
    unfolding bufs by (simp add: demo_launch_facts)
  have queries: "\<forall>q \<in> set (staged_buffers (next_addr demo_world + 2) ?args).
      classifiable demo_extern q"
    unfolding bufs by (simp add: demo_launch_facts)
  obtain w' before after where
      run: "chpl_gpu_launch_kernel demo_build demo_extern ''kernel'' (1, 1, 1) (64, 1, 1)
          ?args demo_world = (Inr (), w')"
    and new: "new_events demo_world w' =
         before @ [E_cuLaunchKernel (chpl_gpu_load_function demo_extern 5 ''kernel'')
                     (1, 1, 1) (64, 1, 1)
                     (map fst (staged_params (next_addr demo_world + 2) ?args)),
                   E_cudaDeviceSynchronize] @ after"
    and obs: "device_allocs before = staged_buffers (next_addr demo_world + 2) ?args"
      "host_to_device_copies before = staged_copies (next_addr demo_world + 2) ?args"
      "device_frees before = []" "device_allocs after = []"
      "device_frees after = staged_buffers (next_addr demo_world + 2) ?args"
    and host: "host_frees (new_events demo_world w') = [Suc (next_addr demo_world)]"
    and pass: "\<forall>(p, n) \<in> set (pass_through ?args). p \<le> next_addr demo_world \<longrightarrow>
       p \<notin> set (device_frees (new_events demo_world w') @ host_frees (new_events demo_world w'))"
    and count: "diags w' = (diags demo_world)(kernel_launch := Suc (diags demo_world kernel_launch))"
    using chpl_gpu_launch_kernel_staging [OF ready modules asserts queries,
        of "(1, 1, 1)" "(64, 1, 1)"]
    by blast
  have "7 \<notin> set (device_frees (new_events demo_world w') @ host_frees (new_events demo_world w'))"
    using pass unfolding split by (simp add: demo_launch_facts)
  moreover have "host_frees (new_events demo_world w') = [101]"
    using host by (simp add: demo_launch_facts)
  moreover have "diags w' kernel_launch = 1" "diags w' host_to_device = 0"
    by (simp_all add: count demo_world_def)
  ultimately show ?thesis
    using run new obs ready modules
    unfolding bufs copies params split
    by (simp add: demo_launch_facts) blast
qed

end
